theory Spec2Isabelle
  imports Main
begin

section \<open>Strings\<close>

text \<open>
  Python strings are modelled as \<^typ>\<open>string\<close>, one \<^typ>\<open>char\<close> per code point, for
  code points below 256. \<open>str.lower\<close> maps the letters A to Z to a to z and leaves every
  other ASCII character unchanged; the model leaves the characters beyond ASCII
  unchanged too.
\<close>

definition lower_char :: "char \<Rightarrow> char" where
  "lower_char c =
     (case map_of (zip ''ABCDEFGHIJKLMNOPQRSTUVWXYZ'' ''abcdefghijklmnopqrstuvwxyz'') c of
        None \<Rightarrow> c
      | Some d \<Rightarrow> d)"

definition upper_char :: "char \<Rightarrow> char" where
  "upper_char c =
     (case map_of (zip ''abcdefghijklmnopqrstuvwxyz'' ''ABCDEFGHIJKLMNOPQRSTUVWXYZ'') c of
        None \<Rightarrow> c
      | Some d \<Rightarrow> d)"

definition lower :: "string \<Rightarrow> string" where
  "lower s = map lower_char s"

text \<open>\<open>s.endswith(t)\<close> and the slice \<open>s[:-k]\<close>.\<close>

definition endswith :: "string \<Rightarrow> string \<Rightarrow> bool" where
  "endswith s t = (length t \<le> length s \<and> drop (length s - length t) s = t)"

definition drop_last :: "nat \<Rightarrow> string \<Rightarrow> string" where
  "drop_last k s = take (length s - k) s"

text \<open>The backslash, which a string literal cannot hold.\<close>

definition bsl :: string where
  "bsl = [CHR 0x5C]"

section \<open>Exceptions and diagnostics\<close>

text \<open>
  The subclasses of Python's \<open>Exception\<close> that the program meets. \<open>ReError\<close> is
  \<open>re.error\<close>; \<open>ClientError\<close> stands for the transport faults of the HTTP client,
  \<open>JSONDecodeError\<close> for a body that is not JSON. \<open>UnsupportedSyntax\<close> is no
  exception of Python: it is the answer of the model of \<open>re\<close> below to a pattern
  outside the fragment it covers.
\<close>

datatype exn =
    ValueError
  | KeyError string
  | IndexError
  | TypeError
  | AttributeError
  | ReError
  | ClientError
  | JSONDecodeError
  | UnsupportedSyntax

text \<open>
  Every \<open>print\<close> of the package managers is one constructor, holding the values its
  f-string interpolates. A function that prints returns the list of its messages, oldest
  first, beside its result.
\<close>

datatype diag =
    GetReleaseError exn                \<comment> \<open>github.py line 68\<close>
  | NoPublishedRelease string string   \<comment> \<open>lines 78 and 99: owner, repo\<close>
  | ApiLimitOrPermission int           \<comment> \<open>lines 81 and 102: status\<close>
  | GetReleaseFailed int               \<comment> \<open>line 84: status\<close>
  | GetReleasesFailed int              \<comment> \<open>line 105: status\<close>
  | NoReleaseAtAll string string       \<comment> \<open>line 110: owner, repo\<close>
  | NoMatchingAsset string             \<comment> \<open>line 151: pattern\<close>
  | SelectedAsset nat string           \<comment> \<open>line 158: number of matches, chosen name\<close>
  | PatternInvalid string exn          \<comment> \<open>line 162: pattern, error\<close>
  | PatternProcessingError exn         \<comment> \<open>line 165\<close>
  | NoManagerForUrl string             \<comment> \<open>registry.py line 43: url\<close>

section \<open>Data model\<close>

text \<open>base.py: the dataclass \<open>ReleaseInfo\<close>.\<close>

record release_info =
  version :: string
  tag_name :: string
  download_url :: string
  published_at :: string
  release_notes :: "string option"

text \<open>
  The JSON objects of the API, as the code reads them. A field is \<open>None\<close> when the key
  is absent from the dict (for \<open>body\<close> also when it is \<open>null\<close>, which \<open>dict.get\<close>
  returns as Python's \<open>None\<close> alike).
\<close>

record asset =
  a_name :: "string option"
  a_browser_download_url :: "string option"
  a_download_count :: "int option"

record release_data =
  d_tag_name :: "string option"
  d_published_at :: "string option"
  d_body :: "string option"
  d_assets :: "asset list option"

text \<open>What \<open>response.json()\<close> decodes: one release object, or a list of them.\<close>

datatype json_body = JObject release_data | JArray "release_data list"

record response =
  status :: int
  json :: "exn + json_body"

record request =
  req_url :: string
  req_headers :: "(string \<times> string) list"
  req_params :: "(string \<times> int) list"

section \<open>Library interfaces\<close>

text \<open>
  The standard library and the HTTP client are not code of this repository; the program's
  functions take them as parameters.
  \<^item> \<open>re.compile(pattern, flags)\<close>: given the pattern and whether \<open>re.IGNORECASE\<close> is
    set, an \<open>re.error\<close> or a compiled pattern, whose \<open>search\<close> returns \<open>None\<close> or the
    match's groups 1, 2, ... (\<open>None\<close> for a group that took no part).
  \<^item> \<open>urlparse(url)\<close>: a \<open>ValueError\<close> or the parse result, of which the program reads
    \<open>netloc\<close>.
  \<^item> \<open>session.get\<close>: a transport fault or the response.
\<close>

type_synonym re_match = "string option list"
type_synonym re_pattern = "string \<Rightarrow> re_match option"
type_synonym re_lib = "string \<Rightarrow> bool \<Rightarrow> exn + re_pattern"

record parse_result =
  scheme :: string
  netloc :: string
  remainder :: string

type_synonym url_lib = "string \<Rightarrow> exn + parse_result"
type_synonym http_lib = "request \<Rightarrow> exn + response"

section \<open>github.py: asset selection\<close>

text \<open>
  The key of line 156, \<open>(x.get("download_count", 0), -len(x["name"]))\<close>, and Python's
  order on pairs.
\<close>

definition tuple_gt :: "int \<times> int \<Rightarrow> int \<times> int \<Rightarrow> bool" where
  "tuple_gt p q = (fst q < fst p \<or> (fst p = fst q \<and> snd q < snd p))"

definition asset_key :: "asset \<Rightarrow> int \<times> int" where
  "asset_key x =
     (case a_download_count x of None \<Rightarrow> 0 | Some n \<Rightarrow> n,
      - int (length (case a_name x of None \<Rightarrow> [] | Some n \<Rightarrow> n)))"

text \<open>
  \<open>max(iterable, key=...)\<close>: the first element is the candidate, and a later element
  replaces it only when its key is strictly greater.
\<close>

fun max_from :: "('a \<Rightarrow> int \<times> int) \<Rightarrow> 'a \<Rightarrow> 'a list \<Rightarrow> 'a" where
  "max_from key best [] = best"
| "max_from key best (x # xs) =
     max_from key (if tuple_gt (key x) (key best) then x else best) xs"

definition py_max :: "('a \<Rightarrow> int \<times> int) \<Rightarrow> 'a list \<Rightarrow> exn + 'a" where
  "py_max key xs = (case xs of [] \<Rightarrow> Inl ValueError | x # rest \<Rightarrow> Inr (max_from key x rest))"

text \<open>
  The loop of lines 146 to 148. \<open>asset["name"]\<close> raises \<open>KeyError\<close> on an asset without
  a name, which ends the loop.
\<close>

fun matching_assets :: "re_pattern \<Rightarrow> asset list \<Rightarrow> asset list \<Rightarrow> exn + asset list" where
  "matching_assets regex acc [] = Inr acc"
| "matching_assets regex acc (x # xs) =
     (case a_name x of
        None \<Rightarrow> Inl (KeyError ''name'')
      | Some n \<Rightarrow> matching_assets regex (if regex n \<noteq> None then acc @ [x] else acc) xs)"

text \<open>
  \<open>_select_asset_by_pattern\<close>, lines 133 to 166. The \<open>try\<close> block is \<open>select_body\<close>;
  the two \<open>except\<close> clauses are in \<open>select_asset_by_pattern\<close>.
\<close>

definition select_body :: "re_lib \<Rightarrow> asset list \<Rightarrow> string \<Rightarrow> diag list \<times> (exn + string)" where
  "select_body re assets pattern =
     (case re pattern True of
        Inl e \<Rightarrow> ([], Inl e)
      | Inr regex \<Rightarrow>
          (case matching_assets regex [] assets of
             Inl e \<Rightarrow> ([], Inl e)
           | Inr matching \<Rightarrow>
               if matching = [] then ([NoMatchingAsset pattern], Inr [])
               else
                 (case py_max asset_key matching of
                    Inl e \<Rightarrow> ([], Inl e)
                  | Inr best \<Rightarrow>
                      (case a_name best of
                         None \<Rightarrow> ([], Inl (KeyError ''name''))
                       | Some n \<Rightarrow>
                           (case a_browser_download_url best of
                              None \<Rightarrow>
                                ([SelectedAsset (length matching) n],
                                 Inl (KeyError ''browser_download_url''))
                            | Some u \<Rightarrow> ([SelectedAsset (length matching) n], Inr u))))))"

definition select_asset_by_pattern :: "re_lib \<Rightarrow> asset list \<Rightarrow> string \<Rightarrow> diag list \<times> string" where
  "select_asset_by_pattern re assets pattern =
     (if pattern = [] then ([], [])
      else
        (case select_body re assets pattern of
           (ds, Inr u) \<Rightarrow> (ds, u)
         | (ds, Inl e) \<Rightarrow>
             (ds @ [if e = ReError then PatternInvalid pattern e else PatternProcessingError e],
              [])))"

section \<open>github.py: the GitHub package manager\<close>

text \<open>
  \<open>__init__\<close>, lines 15 to 21: the argument or else the environment's \<open>GITHUB_TOKEN\<close>;
  an empty string counts as no token.
\<close>

record github =
  api_base :: string
  token :: "string option"
  headers :: "(string \<times> string) list"

definition truthy :: "string option \<Rightarrow> bool" where
  "truthy t = (case t of None \<Rightarrow> False | Some s \<Rightarrow> s \<noteq> [])"

definition github_init :: "string option \<Rightarrow> string option \<Rightarrow> github" where
  "github_init tok env_token =
     (let t = (if truthy tok then tok else env_token);
          hs = [(''Accept'', ''application/vnd.github.v3+json''),
                (''User-Agent'', ''py-winget-source/1.0'')]
      in \<lparr>api_base = ''https://api.github.com'',
          token = t,
          headers = (case t of
                       None \<Rightarrow> hs
                     | Some v \<Rightarrow> if v \<noteq> [] then hs @ [(''Authorization'', ''Bearer '' @ v)] else hs)\<rparr>)"

text \<open>base.py \<open>_parse_url\<close> and github.py \<open>can_handle\<close>, lines 23 to 26.\<close>

definition parse_url :: "url_lib \<Rightarrow> string \<Rightarrow> exn + parse_result" where
  "parse_url urlparse url = urlparse url"

definition gh_can_handle :: "url_lib \<Rightarrow> string \<Rightarrow> exn + bool" where
  "gh_can_handle urlparse url =
     (case parse_url urlparse url of
        Inl e \<Rightarrow> Inl e
      | Inr parsed \<Rightarrow> Inr (lower (netloc parsed) \<in> set [''github.com'', ''www.github.com'']))"

text \<open>\<open>extract_repo_info\<close>, lines 28 to 46. The three patterns are the source's, verbatim.\<close>

definition patterns :: "string list" where
  "patterns =
     [''github'' @ bsl @ ''.com/([^/]+)/([^/]+?)(?:'' @ bsl @ ''.git)?/?(?:'' @ bsl @ ''?.*)?$'',
      ''github'' @ bsl @ ''.com/([^/]+)/([^/]+?)(?:'' @ bsl @
        ''.git)?/(?:tree|blob|releases|actions|issues|pull)/'',
      ''github'' @ bsl @ ''.com/([^/]+)/([^/]+?)(?:'' @ bsl @ ''.git)?/archive/'']"

text \<open>
  \<open>re.search(pattern, string)\<close> compiles without flags and searches. \<open>match.group(i)\<close>
  raises \<open>IndexError\<close> when the pattern has no group \<open>i\<close>. A group that took no part is
  Python's \<open>None\<close>; with the three patterns above both groups take part in every match,
  and the model raises where the code would go on with \<open>None\<close>.
\<close>

definition re_search :: "re_lib \<Rightarrow> string \<Rightarrow> string \<Rightarrow> exn + re_match option" where
  "re_search re pattern s = (case re pattern False of Inl e \<Rightarrow> Inl e | Inr regex \<Rightarrow> Inr (regex s))"

definition match_group :: "re_match \<Rightarrow> nat \<Rightarrow> exn + string" where
  "match_group m i =
     (if i = 0 \<or> length m < i then Inl IndexError
      else (case m ! (i - 1) of None \<Rightarrow> Inl AttributeError | Some g \<Rightarrow> Inr g))"

fun extract_loop :: "re_lib \<Rightarrow> string list \<Rightarrow> string \<Rightarrow> exn + string \<times> string" where
  "extract_loop re [] url = Inl ValueError"
| "extract_loop re (pattern # rest) url =
     (case re_search re pattern (lower url) of
        Inl e \<Rightarrow> Inl e
      | Inr None \<Rightarrow> extract_loop re rest url
      | Inr (Some m) \<Rightarrow>
          (case match_group m 1 of
             Inl e \<Rightarrow> Inl e
           | Inr owner \<Rightarrow>
               (case match_group m 2 of
                  Inl e \<Rightarrow> Inl e
                | Inr repo \<Rightarrow>
                    Inr (owner, if endswith repo ''.git'' then drop_last 4 repo else repo))))"

definition gh_extract_repo_info :: "re_lib \<Rightarrow> string \<Rightarrow> exn + string \<times> string" where
  "gh_extract_repo_info re url = extract_loop re patterns url"

text \<open>
  \<open>_parse_release_data\<close>, lines 116 to 131. Asset selection runs first; \<open>data["tag_name"]\<close>
  raises \<open>KeyError\<close> on an object without a tag.
\<close>

definition parse_release_data :: "re_lib \<Rightarrow> release_data \<Rightarrow> string \<Rightarrow> diag list \<times> (exn + release_info)" where
  "parse_release_data re data pattern =
     (let (ds, url) =
            (case d_assets data of
               None \<Rightarrow> ([], None)
             | Some assets \<Rightarrow>
                 if assets \<noteq> [] \<and> pattern \<noteq> [] then
                   (case select_asset_by_pattern re assets pattern of (ds, u) \<Rightarrow> (ds, Some u))
                 else ([], None))
      in case d_tag_name data of
           None \<Rightarrow> (ds, Inl (KeyError ''tag_name''))
         | Some tag \<Rightarrow>
             (ds, Inr \<lparr>version = tag,
                       tag_name = tag,
                       download_url = (case url of None \<Rightarrow> [] | Some u \<Rightarrow> u),
                       published_at = (case d_published_at data of None \<Rightarrow> [] | Some p \<Rightarrow> p),
                       release_notes = d_body data\<rparr>))"

text \<open>
  \<open>_get_latest_stable_release\<close>, lines 71 to 88. A JSON array has no \<open>get\<close>, so
  \<open>_parse_release_data\<close> raises \<open>AttributeError\<close> on it.
\<close>

definition stable_request :: "github \<Rightarrow> string \<Rightarrow> string \<Rightarrow> request" where
  "stable_request self owner repo =
     \<lparr>req_url = api_base self @ ''/repos/'' @ owner @ ''/'' @ repo @ ''/releases/latest'',
      req_headers = headers self,
      req_params = []\<rparr>"

definition get_latest_stable_release ::
  "github \<Rightarrow> http_lib \<Rightarrow> re_lib \<Rightarrow> string \<Rightarrow> string \<Rightarrow> string
     \<Rightarrow> diag list \<times> (exn + release_info option)" where
  "get_latest_stable_release self http re owner repo pattern =
     (case http (stable_request self owner repo) of
        Inl e \<Rightarrow> ([], Inl e)
      | Inr resp \<Rightarrow>
          if status resp = 404 then ([NoPublishedRelease owner repo], Inr None)
          else if status resp = 403 then ([ApiLimitOrPermission (status resp)], Inr None)
          else if status resp \<noteq> 200 then ([GetReleaseFailed (status resp)], Inr None)
          else
            (case json resp of
               Inl e \<Rightarrow> ([], Inl e)
             | Inr (JArray rs) \<Rightarrow> ([], Inl AttributeError)
             | Inr (JObject data) \<Rightarrow>
                 (case parse_release_data re data pattern of
                    (ds, Inl e) \<Rightarrow> (ds, Inl e)
                  | (ds, Inr info) \<Rightarrow> (ds, Inr (Some info)))))"

text \<open>
  \<open>_get_latest_release_including_prerelease\<close>, lines 90 to 114. \<open>not releases\<close> holds of
  an empty list and of an empty object (here: one with none of the keys the program
  reads); \<open>releases[0]\<close> on a non-empty object raises \<open>KeyError\<close>.
\<close>

definition releases_request :: "github \<Rightarrow> string \<Rightarrow> string \<Rightarrow> request" where
  "releases_request self owner repo =
     \<lparr>req_url = api_base self @ ''/repos/'' @ owner @ ''/'' @ repo @ ''/releases'',
      req_headers = headers self,
      req_params = [(''per_page'', 10)]\<rparr>"

definition empty_object :: "release_data \<Rightarrow> bool" where
  "empty_object d =
     (d_tag_name d = None \<and> d_published_at d = None \<and> d_body d = None \<and> d_assets d = None)"

definition get_latest_release_including_prerelease ::
  "github \<Rightarrow> http_lib \<Rightarrow> re_lib \<Rightarrow> string \<Rightarrow> string \<Rightarrow> string
     \<Rightarrow> diag list \<times> (exn + release_info option)" where
  "get_latest_release_including_prerelease self http re owner repo pattern =
     (case http (releases_request self owner repo) of
        Inl e \<Rightarrow> ([], Inl e)
      | Inr resp \<Rightarrow>
          if status resp = 404 then ([NoPublishedRelease owner repo], Inr None)
          else if status resp = 403 then ([ApiLimitOrPermission (status resp)], Inr None)
          else if status resp \<noteq> 200 then ([GetReleasesFailed (status resp)], Inr None)
          else
            (case json resp of
               Inl e \<Rightarrow> ([], Inl e)
             | Inr (JObject d) \<Rightarrow>
                 if empty_object d then ([NoReleaseAtAll owner repo], Inr None)
                 else ([], Inl (KeyError ''0''))
             | Inr (JArray releases) \<Rightarrow>
                 (case releases of
                    [] \<Rightarrow> ([NoReleaseAtAll owner repo], Inr None)
                  | first # _ \<Rightarrow>
                      (case parse_release_data re first pattern of
                         (ds, Inl e) \<Rightarrow> (ds, Inl e)
                       | (ds, Inr info) \<Rightarrow> (ds, Inr (Some info))))))"

text \<open>
  \<open>get_latest_release\<close>, lines 48 to 69. \<open>gh_resolve\<close> is the \<open>try\<close> block; the
  \<open>except Exception\<close> clause prints the error and returns \<open>None\<close>.
\<close>

definition gh_resolve ::
  "github \<Rightarrow> http_lib \<Rightarrow> re_lib \<Rightarrow> string \<Rightarrow> bool \<Rightarrow> string
     \<Rightarrow> diag list \<times> (exn + release_info option)" where
  "gh_resolve self http re url include_prerelease pattern =
     (case gh_extract_repo_info re url of
        Inl e \<Rightarrow> ([], Inl e)
      | Inr (owner, repo) \<Rightarrow>
          if include_prerelease
          then get_latest_release_including_prerelease self http re owner repo pattern
          else get_latest_stable_release self http re owner repo pattern)"

definition gh_get_latest_release ::
  "github \<Rightarrow> http_lib \<Rightarrow> re_lib \<Rightarrow> string \<Rightarrow> bool \<Rightarrow> string
     \<Rightarrow> diag list \<times> release_info option" where
  "gh_get_latest_release self http re url include_prerelease pattern =
     (case gh_resolve self http re url include_prerelease pattern of
        (ds, Inl e) \<Rightarrow> (ds @ [GetReleaseError e], None)
      | (ds, Inr r) \<Rightarrow> (ds, r))"

section \<open>base.py and registry.py: providers and the registry\<close>

text \<open>
  The abstract class \<open>PackageManager\<close>: an object with the methods the registry calls.
  An implementation may raise from either.
\<close>

record package_manager =
  can_handle :: "string \<Rightarrow> exn + bool"
  get_latest_release :: "string \<Rightarrow> bool \<Rightarrow> string \<Rightarrow> diag list \<times> (exn + release_info option)"

definition github_manager :: "github \<Rightarrow> url_lib \<Rightarrow> http_lib \<Rightarrow> re_lib \<Rightarrow> package_manager" where
  "github_manager self urlparse http re =
     \<lparr>can_handle = gh_can_handle urlparse,
      get_latest_release =
        (\<lambda>url include_prerelease pattern.
           case gh_get_latest_release self http re url include_prerelease pattern of
             (ds, r) \<Rightarrow> (ds, Inr r))\<rparr>"

text \<open>registry.py: \<open>register\<close>, \<open>_register_default_managers\<close>, \<open>get_manager\<close>, \<open>get_latest_release\<close>.\<close>

type_synonym registry = "package_manager list"

definition register :: "package_manager \<Rightarrow> registry \<Rightarrow> registry" where
  "register manager managers = managers @ [manager]"

definition registry_init :: "string option \<Rightarrow> url_lib \<Rightarrow> http_lib \<Rightarrow> re_lib \<Rightarrow> registry" where
  "registry_init env_token urlparse http re =
     register (github_manager (github_init None env_token) urlparse http re) []"

fun get_manager :: "registry \<Rightarrow> string \<Rightarrow> exn + package_manager option" where
  "get_manager [] url = Inr None"
| "get_manager (manager # rest) url =
     (case can_handle manager url of
        Inl e \<Rightarrow> Inl e
      | Inr b \<Rightarrow> if b then Inr (Some manager) else get_manager rest url)"

definition registry_get_latest_release ::
  "registry \<Rightarrow> string \<Rightarrow> bool \<Rightarrow> string \<Rightarrow> diag list \<times> (exn + release_info option)" where
  "registry_get_latest_release managers url include_prerelease pattern =
     (case get_manager managers url of
        Inl e \<Rightarrow> ([], Inl e)
      | Inr None \<Rightarrow> ([NoManagerForUrl url], Inr None)
      | Inr (Some manager) \<Rightarrow> get_latest_release manager url include_prerelease pattern)"

section \<open>Library model: \<open>urllib.parse.urlparse\<close>\<close>

text \<open>
  A model of how CPython 3.11 computes \<open>scheme\<close> and \<open>netloc\<close> in \<open>urlsplit\<close>. Leading
  C0 control characters and spaces are stripped and tabs and line breaks are removed
  (\<open>url_clean\<close>); a leading run of scheme characters that starts with a letter and ends
  at the first colon is the scheme; after \<open>//\<close> the netloc runs to the first of \<open>/\<close>,
  \<open>?\<close> and \<open>#\<close>. Three checks raise \<open>ValueError\<close>:
  \<^item> a netloc with one of the square brackets and not the other;
  \<^item> a netloc with both, whose bracketed host is not an IP literal, which the parameter
    \<open>ip_literal\<close> decides;
  \<^item> \<open>_checknetloc\<close>: a netloc that is not ASCII and whose NFKC form, taken after
    \<open>@\<close>, \<open>:\<close>, \<open>#\<close> and \<open>?\<close> are dropped, differs from it and holds one of \<open>/\<close>,
    \<open>?\<close>, \<open>#\<close>, \<open>@\<close>, \<open>:\<close>. \<open>unicodedata.normalize('NFKC', _)\<close> is the parameter
    \<open>nfkc\<close>.
  A \<^typ>\<open>char\<close> is a code point below 256, so a URL with a code point beyond, such as
  U+2100, which NFKC expands to \<open>a/c\<close>, is not a value of \<^typ>\<open>string\<close>.
\<close>

definition is_ascii :: "char \<Rightarrow> bool" where
  "is_ascii c = ((of_char c :: nat) < 128)"

definition is_alpha :: "char \<Rightarrow> bool" where
  "is_alpha c = (c \<in> set ''abcdefghijklmnopqrstuvwxyzABCDEFGHIJKLMNOPQRSTUVWXYZ'')"

definition scheme_char :: "char \<Rightarrow> bool" where
  "scheme_char c =
     (c \<in> set ''abcdefghijklmnopqrstuvwxyzABCDEFGHIJKLMNOPQRSTUVWXYZ0123456789+-.'')"

definition c0_or_space :: "char \<Rightarrow> bool" where
  "c0_or_space c = ((of_char c :: nat) \<le> 32)"

definition unsafe_byte :: "char \<Rightarrow> bool" where
  "unsafe_byte c = (c = CHR 0x09 \<or> c = CHR 0x0D \<or> c = CHR 0x0A)"

definition netloc_delim :: "char \<Rightarrow> bool" where
  "netloc_delim c = (c = CHR ''/'' \<or> c = CHR ''?'' \<or> c = CHR ''#'')"

definition url_clean :: "string \<Rightarrow> string" where
  "url_clean url = filter (\<lambda>c. \<not> unsafe_byte c) (dropWhile c0_or_space url)"

definition split_scheme :: "string \<Rightarrow> string \<times> string" where
  "split_scheme url =
     (let pre = takeWhile (\<lambda>c. c \<noteq> CHR '':'') url
      in if length pre < length url \<and> pre \<noteq> [] \<and> is_alpha (hd pre) \<and> list_all scheme_char pre
         then (lower pre, drop (Suc (length pre)) url)
         else ([], url))"

definition bracketed_host :: "string \<Rightarrow> string" where
  "bracketed_host nl =
     takeWhile (\<lambda>c. c \<noteq> CHR '']'') (drop 1 (dropWhile (\<lambda>c. c \<noteq> CHR ''['') nl))"

definition checknetloc_raises :: "(string \<Rightarrow> string) \<Rightarrow> string \<Rightarrow> bool" where
  "checknetloc_raises nfkc nl =
     (if nl = [] \<or> list_all is_ascii nl then False
      else
        (let n = filter (\<lambda>c. c \<notin> set ''@:#?'') nl;
             netloc2 = nfkc n
         in n \<noteq> netloc2 \<and> list_ex (\<lambda>c. c \<in> set netloc2) ''/?#@:''))"

definition py_urlparse ::
  "(string \<Rightarrow> bool) \<Rightarrow> (string \<Rightarrow> string) \<Rightarrow> string \<Rightarrow> exn + parse_result" where
  "py_urlparse ip_literal nfkc url =
     (let (sch, rest) = split_scheme (url_clean url)
      in if take 2 rest = ''//'' then
           (let nl = takeWhile (\<lambda>c. \<not> netloc_delim c) (drop 2 rest);
                after = dropWhile (\<lambda>c. \<not> netloc_delim c) (drop 2 rest)
            in if (CHR ''['' \<in> set nl) \<noteq> (CHR '']'' \<in> set nl) then Inl ValueError
               else if CHR ''['' \<in> set nl \<and> \<not> ip_literal (bracketed_host nl) then Inl ValueError
               else if checknetloc_raises nfkc nl then Inl ValueError
               else Inr \<lparr>scheme = sch, netloc = nl, remainder = after\<rparr>)
         else if checknetloc_raises nfkc [] then Inl ValueError
         else Inr \<lparr>scheme = sch, netloc = [], remainder = rest\<rparr>)"

section \<open>Library model: \<open>re\<close>\<close>

text \<open>
  A backtracking matcher for a fragment of Python's regular expressions: literals,
  \<open>.\<close>, character sets with ranges and negation, \<open>^\<close>, \<open>$\<close>, alternation, capturing
  and non-capturing groups, and the quantifiers \<open>*\<close>, \<open>+\<close>, \<open>?\<close>, greedy and lazy.
  The matcher returns every way to match, in the order in which a backtracking search
  tries them; the first is the match Python finds. A state is the input still to read and
  the groups captured so far, the latest first.
\<close>

datatype rx =
    Emp
  | Lit char
  | AnyC
  | Cls bool "char list"
  | Bol
  | Eol
  | Seq rx rx
  | Alt rx rx
  | Star bool rx
  | Grp nat rx

type_synonym mstate = "string \<times> (nat \<times> string) list"

text \<open>
  Under \<open>re.IGNORECASE\<close> letters are compared by their lower case. \<open>$\<close> matches at
  the end and before a line break that ends the string; \<open>.\<close> matches anything but a
  line break. A repetition goes on only after an iteration that consumed input.
\<close>

definition lit_eq :: "bool \<Rightarrow> char \<Rightarrow> char \<Rightarrow> bool" where
  "lit_eq ic c x = (if ic then lower_char x = lower_char c else x = c)"

definition cls_mem :: "bool \<Rightarrow> char list \<Rightarrow> char \<Rightarrow> bool" where
  "cls_mem ic cs x = (x \<in> set cs \<or> (ic \<and> (lower_char x \<in> set cs \<or> upper_char x \<in> set cs)))"

fun rx_match :: "bool \<Rightarrow> nat \<Rightarrow> rx \<Rightarrow> mstate \<Rightarrow> mstate list" where
  "rx_match ic n Emp st = [st]"
| "rx_match ic n (Lit c) st =
     (case fst st of [] \<Rightarrow> [] | x # xs \<Rightarrow> if lit_eq ic c x then [(xs, snd st)] else [])"
| "rx_match ic n AnyC st =
     (case fst st of [] \<Rightarrow> [] | x # xs \<Rightarrow> if x \<noteq> CHR 0x0A then [(xs, snd st)] else [])"
| "rx_match ic n (Cls neg cs) st =
     (case fst st of [] \<Rightarrow> [] | x # xs \<Rightarrow> if cls_mem ic cs x \<noteq> neg then [(xs, snd st)] else [])"
| "rx_match ic n Bol st = (if length (fst st) = n then [st] else [])"
| "rx_match ic n Eol st = (if fst st = [] \<or> fst st = [CHR 0x0A] then [st] else [])"
| "rx_match ic n (Seq a b) st = concat (map (rx_match ic n b) (rx_match ic n a st))"
| "rx_match ic n (Alt a b) st = rx_match ic n a st @ rx_match ic n b st"
| "rx_match ic n (Star greedy a) st =
     (let more = concat (map (rx_match ic n (Star greedy a))
                   (filter (\<lambda>st'. length (fst st') < length (fst st)) (rx_match ic n a st)))
      in if greedy then more @ [st] else st # more)"
| "rx_match ic n (Grp k a) st =
     map (\<lambda>st'. (fst st', (k, take (length (fst st) - length (fst st')) (fst st)) # snd st'))
       (rx_match ic n a st)"

fun rx_search_from :: "bool \<Rightarrow> nat \<Rightarrow> rx \<Rightarrow> string \<Rightarrow> (nat \<times> string) list option" where
  "rx_search_from ic n r s =
     (case rx_match ic n r (s, []) of
        st # _ \<Rightarrow> Some (snd st)
      | [] \<Rightarrow> (case s of [] \<Rightarrow> None | _ # t \<Rightarrow> rx_search_from ic n r t))"


definition groups_of :: "nat \<Rightarrow> (nat \<times> string) list \<Rightarrow> re_match" where
  "groups_of k caps = map (map_of caps) [1 ..< Suc k]"

text \<open>
  The parser reads the pattern once, left to right, with a stack of the groups that are
  open. A quantifier applies to the piece before it; a malformed pattern is \<open>re.error\<close>.
  Syntax outside the fragment (escapes of letters and digits, braces, \<open>(?\<close> forms other
  than \<open>(?:\<close>, possessive quantifiers) is answered with \<open>UnsupportedSyntax\<close>, which says
  nothing about Python.
\<close>

datatype piece = PAtom rx | PQuant char bool rx

fun piece_rx :: "piece \<Rightarrow> rx" where
  "piece_rx (PAtom r) = r"
| "piece_rx (PQuant q lazy r) =
     (if q = CHR ''*'' then Star (\<not> lazy) r
      else if q = CHR ''+'' then Seq r (Star (\<not> lazy) r)
      else if lazy then Alt Emp r else Alt r Emp)"

definition branch_rx :: "piece list \<Rightarrow> rx" where
  "branch_rx ps = foldl (\<lambda>acc p. Seq (piece_rx p) acc) Emp ps"

record frame =
  f_group :: "nat option"
  f_alts :: "rx list"
  f_cur :: "piece list"

definition frame_rx :: "frame \<Rightarrow> rx" where
  "frame_rx f =
     (let body = foldl (\<lambda>acc b. Alt b acc) (branch_rx (f_cur f)) (f_alts f)
      in case f_group f of None \<Rightarrow> body | Some k \<Rightarrow> Grp k body)"

definition new_frame :: "nat option \<Rightarrow> frame" where
  "new_frame g = \<lparr>f_group = g, f_alts = [], f_cur = []\<rparr>"

definition push_piece :: "piece \<Rightarrow> frame list \<Rightarrow> frame list" where
  "push_piece p st = (case st of [] \<Rightarrow> [] | f # fs \<Rightarrow> f\<lparr>f_cur := p # f_cur f\<rparr> # fs)"

definition quantify :: "char \<Rightarrow> frame list \<Rightarrow> exn + frame list" where
  "quantify q st =
     (case st of
        [] \<Rightarrow> Inl ReError
      | f # fs \<Rightarrow>
          (case f_cur f of
             [] \<Rightarrow> Inl ReError
           | PAtom r # ps \<Rightarrow>
               if r = Bol \<or> r = Eol then Inl ReError
               else Inr (f\<lparr>f_cur := PQuant q False r # ps\<rparr> # fs)
           | PQuant k lazy r # ps \<Rightarrow>
               if lazy then Inl ReError
               else if q = CHR ''?'' then Inr (f\<lparr>f_cur := PQuant k True r # ps\<rparr> # fs)
               else if q = CHR ''+'' then Inl UnsupportedSyntax
               else Inl ReError))"

definition is_alnum :: "char \<Rightarrow> bool" where
  "is_alnum c =
     (c \<in> set ''abcdefghijklmnopqrstuvwxyzABCDEFGHIJKLMNOPQRSTUVWXYZ0123456789'')"

definition char_range :: "char \<Rightarrow> char \<Rightarrow> char list" where
  "char_range lo hi = map char_of [of_char lo ..< Suc (of_char hi)]"

fun parse_rx :: "(bool \<times> char list) option \<Rightarrow> frame list \<Rightarrow> nat \<Rightarrow> string \<Rightarrow> exn + rx \<times> nat" where
  "parse_rx cls st k [] =
     (case cls of
        Some _ \<Rightarrow> Inl ReError
      | None \<Rightarrow> (case st of [f] \<Rightarrow> Inr (frame_rx f, k) | _ \<Rightarrow> Inl ReError))"
| "parse_rx (Some (neg, items)) st k (c # cs) =
     (if c = CHR '']'' \<and> items \<noteq> [] then parse_rx None (push_piece (PAtom (Cls neg items)) st) k cs
      else if c = CHR 0x5C then
        (case cs of
           [] \<Rightarrow> Inl ReError
         | d # ds \<Rightarrow>
             if is_alnum d then Inl UnsupportedSyntax
             else parse_rx (Some (neg, items @ [d])) st k ds)
      else
        (case cs of
           m # hi # rest \<Rightarrow>
             if m = CHR ''-'' \<and> hi \<noteq> CHR '']'' then
               (if hi = CHR 0x5C \<or> hi = CHR ''['' then Inl UnsupportedSyntax
                else if (of_char hi :: nat) < of_char c then Inl ReError
                else parse_rx (Some (neg, items @ char_range c hi)) st k rest)
             else parse_rx (Some (neg, items @ [c])) st k cs
         | _ \<Rightarrow> parse_rx (Some (neg, items @ [c])) st k cs))"
| "parse_rx None st k (c # cs) =
     (if c = CHR 0x5C then
        (case cs of
           [] \<Rightarrow> Inl ReError
         | d # ds \<Rightarrow>
             if is_alnum d then Inl UnsupportedSyntax
             else parse_rx None (push_piece (PAtom (Lit d)) st) k ds)
      else if c = CHR ''.'' then parse_rx None (push_piece (PAtom AnyC) st) k cs
      else if c = CHR ''^'' then parse_rx None (push_piece (PAtom Bol) st) k cs
      else if c = CHR ''$'' then parse_rx None (push_piece (PAtom Eol) st) k cs
      else if c = CHR ''*'' \<or> c = CHR ''+'' \<or> c = CHR ''?'' then
        (case quantify c st of Inl e \<Rightarrow> Inl e | Inr st' \<Rightarrow> parse_rx None st' k cs)
      else if c = CHR ''{'' then Inl UnsupportedSyntax
      else if c = CHR ''('' then
        (case cs of
           [] \<Rightarrow> Inl ReError
         | q # qs \<Rightarrow>
             if q = CHR ''?'' then
               (case qs of
                  [] \<Rightarrow> Inl ReError
                | x # xs \<Rightarrow>
                    if x = CHR '':'' then parse_rx None (new_frame None # st) k xs
                    else Inl UnsupportedSyntax)
             else parse_rx None (new_frame (Some (Suc k)) # st) (Suc k) cs)
      else if c = CHR '')'' then
        (case st of
           f # g # fs \<Rightarrow> parse_rx None (push_piece (PAtom (frame_rx f)) (g # fs)) k cs
         | _ \<Rightarrow> Inl ReError)
      else if c = CHR ''|'' then
        (case st of
           [] \<Rightarrow> Inl ReError
         | f # fs \<Rightarrow>
             parse_rx None (f\<lparr>f_alts := branch_rx (f_cur f) # f_alts f, f_cur := []\<rparr> # fs) k cs)
      else if c = CHR ''['' then
        (case cs of
           [] \<Rightarrow> Inl ReError
         | x # xs \<Rightarrow>
             if x = CHR ''^'' then parse_rx (Some (True, [])) st k xs
             else parse_rx (Some (False, [])) st k cs)
      else parse_rx None (push_piece (PAtom (Lit c)) st) k cs)"

definition re_parse :: "string \<Rightarrow> exn + rx \<times> nat" where
  "re_parse pattern = parse_rx None [new_frame None] 0 pattern"

definition py_re :: re_lib where
  "py_re pattern ic =
     (case re_parse pattern of
        Inl e \<Rightarrow> Inl e
      | Inr (r, k) \<Rightarrow> Inr (\<lambda>s. map_option (groups_of k) (rx_search_from ic (length s) r s)))"


section \<open>The specification's vocabulary\<close>

text \<open>
  The ranking of the specification, in its words: the download count, higher first, and
  on equal counts the shorter name. \<open>better a b\<close> says that \<open>a\<close> ranks strictly before
  \<open>b\<close>. An absent download count is 0.
\<close>

definition count_of :: "asset \<Rightarrow> int" where
  "count_of x = (case a_download_count x of None \<Rightarrow> 0 | Some n \<Rightarrow> n)"

definition name_of :: "asset \<Rightarrow> string" where
  "name_of x = (case a_name x of None \<Rightarrow> [] | Some n \<Rightarrow> n)"

definition url_of :: "asset \<Rightarrow> string" where
  "url_of x = (case a_browser_download_url x of None \<Rightarrow> [] | Some u \<Rightarrow> u)"

definition better :: "asset \<Rightarrow> asset \<Rightarrow> bool" where
  "better a b =
     (count_of b < count_of a \<or>
      (count_of a = count_of b \<and> length (name_of a) < length (name_of b)))"

text \<open>An asset as the API delivers it has a name and a download URL.\<close>

definition well_formed :: "asset \<Rightarrow> bool" where
  "well_formed x = (a_name x \<noteq> None \<and> a_browser_download_url x \<noteq> None)"

definition asset_matches :: "re_pattern \<Rightarrow> asset \<Rightarrow> bool" where
  "asset_matches regex x = (case a_name x of None \<Rightarrow> False | Some n \<Rightarrow> regex n \<noteq> None)"

text \<open>The assets of the specification's examples.\<close>

definition mk_asset :: "string \<Rightarrow> int \<Rightarrow> asset" where
  "mk_asset n c =
     \<lparr>a_name = Some n,
      a_browser_download_url = Some (''https://example.com/'' @ n),
      a_download_count = Some c\<rparr>"

definition example_assets :: "asset list" where
  "example_assets =
     [mk_asset ''app-win32.zip'' 5, mk_asset ''app-win64.zip'' 20, mk_asset ''app-macos.zip'' 20]"

definition example_tie :: "asset list" where
  "example_tie = [mk_asset ''app-win64.zip'' 20, mk_asset ''app.zip'' 20]"

definition example_equal :: "asset list" where
  "example_equal =
     [mk_asset ''notes.txt'' 7, mk_asset ''a-x64.zip'' 7, mk_asset ''a-x86.zip'' 7]"

definition example_release :: release_data where
  "example_release =
     \<lparr>d_tag_name = Some ''v1.2.0'',
      d_published_at = Some ''2024-01-01T00:00:00Z'',
      d_body = None,
      d_assets = Some example_assets\<rparr>"

text \<open>
  No asset matched: the release has no asset list, or the pattern does not compile, or
  the compiled pattern finds nothing in any asset's name.
\<close>

definition no_asset_matches :: "re_lib \<Rightarrow> release_data \<Rightarrow> string \<Rightarrow> bool" where
  "no_asset_matches re data pattern =
     (case d_assets data of
        None \<Rightarrow> True
      | Some assets \<Rightarrow>
          (case re pattern True of
             Inl e \<Rightarrow> True
           | Inr regex \<Rightarrow> list_all (\<lambda>x. \<not> asset_matches regex x) assets))"

text \<open>The request of either path, and a server that answers every request alike.\<close>

definition request_for :: "github \<Rightarrow> bool \<Rightarrow> string \<Rightarrow> string \<Rightarrow> request" where
  "request_for self include_prerelease owner repo =
     (if include_prerelease then releases_request self owner repo
      else stable_request self owner repo)"

definition answering :: "int \<Rightarrow> json_body \<Rightarrow> http_lib" where
  "answering code body = (\<lambda>req. Inr \<lparr>status = code, json = Inr body\<rparr>)"

definition anonymous :: github where
  "anonymous = github_init None None"

definition example_older :: release_data where
  "example_older =
     \<lparr>d_tag_name = Some ''v1.1.0'',
      d_published_at = Some ''2023-06-01T00:00:00Z'',
      d_body = Some ''older'',
      d_assets = None\<rparr>"

text \<open>A provider that answers every URL alike, to tell registered providers apart.\<close>

definition stub_release :: "string \<Rightarrow> release_info" where
  "stub_release tag =
     \<lparr>version = tag, tag_name = tag, download_url = [], published_at = [],
      release_notes = None\<rparr>"

definition stub_manager :: "bool \<Rightarrow> string \<Rightarrow> package_manager" where
  "stub_manager claims tag =
     \<lparr>can_handle = (\<lambda>url. Inr claims),
      get_latest_release = (\<lambda>url include_prerelease pattern. ([], Inr (Some (stub_release tag))))\<rparr>"

text \<open>
  A scheme as \<open>urlsplit\<close> accepts it, and an authority (netloc) of ASCII characters
  that holds no delimiter and no square bracket.
\<close>

definition valid_scheme :: "string \<Rightarrow> bool" where
  "valid_scheme sch = (sch \<noteq> [] \<and> is_alpha (hd sch) \<and> list_all scheme_char sch)"

definition plain_authority :: "string \<Rightarrow> bool" where
  "plain_authority auth =
     list_all (\<lambda>c. is_ascii c \<and> \<not> netloc_delim c \<and> c \<noteq> CHR ''['' \<and> c \<noteq> CHR '']'') auth"

definition is_github :: "string \<Rightarrow> bool" where
  "is_github auth = (lower auth = ''github.com'' \<or> lower auth = ''www.github.com'')"

text \<open>
  For the examples, which hold no bracketed host and are ASCII: a validator that accepts,
  and the NFKC form of ASCII text, which is the text.
\<close>

definition no_ip_check :: "string \<Rightarrow> bool" where
  "no_ip_check h = True"

definition nfkc_ascii :: "string \<Rightarrow> string" where
  "nfkc_ascii s = s"

text \<open>The registry as the program builds it, with no token in the environment.\<close>

definition default_registry :: registry where
  "default_registry =
     registry_init None (py_urlparse no_ip_check nfkc_ascii) (answering 200 (JArray [])) py_re"

section \<open>Asset selection: the ranking\<close>

lemma tuple_gt_better: "tuple_gt (asset_key a) (asset_key b) = better a b"
  by (auto simp: tuple_gt_def asset_key_def better_def count_of_def name_of_def)

lemma matching_assets_filter:
  "list_all (\<lambda>x. a_name x \<noteq> None) xs \<Longrightarrow>
   matching_assets regex acc xs = Inr (acc @ filter (asset_matches regex) xs)"
  by (induction xs arbitrary: acc) (auto simp: asset_matches_def)

lemma matching_assets_none:
  "list_all (\<lambda>x. \<not> asset_matches regex x) xs \<Longrightarrow>
   matching_assets regex acc xs = Inr acc \<or> (\<exists>e. matching_assets regex acc xs = Inl e)"
  by (induction xs arbitrary: acc) (auto simp: asset_matches_def split: option.splits)

lemma better_irrefl: "\<not> better a a"
  by (simp add: better_def)

lemma better_trans: "better a b \<Longrightarrow> better b c \<Longrightarrow> better a c"
  by (auto simp: better_def)

lemma not_better_trans: "\<not> better a b \<Longrightarrow> \<not> better b c \<Longrightarrow> \<not> better a c"
  by (auto simp: better_def)

lemma max_from_mem: "max_from asset_key b xs \<in> set (b # xs)"
  by (induction xs arbitrary: b) auto

lemma max_from_ge_start: "\<not> better b (max_from asset_key b xs)"
proof (induction xs arbitrary: b)
  case Nil show ?case by (simp add: better_irrefl)
next
  case (Cons x xs)
  show ?case
  proof (cases "better x b")
    case True
    have "\<not> better x (max_from asset_key x xs)" by (rule Cons.IH)
    moreover have "\<not> better b x" using True by (auto simp: better_def)
    ultimately have "\<not> better b (max_from asset_key x xs)" by (rule not_better_trans[rotated])
    then show ?thesis using True by (simp add: tuple_gt_better)
  next
    case False
    then show ?thesis using Cons.IH[of b] by (simp add: tuple_gt_better)
  qed
qed

lemma max_from_maximal: "y \<in> set (b # xs) \<Longrightarrow> \<not> better y (max_from asset_key b xs)"
proof (induction xs arbitrary: b)
  case Nil then show ?case by (simp add: better_irrefl)
next
  case (Cons x xs)
  let ?b' = "if better x b then x else b"
  have step: "max_from asset_key b (x # xs) = max_from asset_key ?b' xs"
    by (simp add: tuple_gt_better)
  consider "y = b" | "y = x" | "y \<in> set xs" using Cons.prems by auto
  then show ?case
  proof cases
    case 1
    have "\<not> better b ?b'" by (auto simp: better_def)
    moreover have "\<not> better ?b' (max_from asset_key ?b' xs)" by (rule max_from_ge_start)
    ultimately show ?thesis unfolding step 1 by (rule not_better_trans)
  next
    case 2
    have "\<not> better x ?b'" by (auto simp: better_def)
    moreover have "\<not> better ?b' (max_from asset_key ?b' xs)" by (rule max_from_ge_start)
    ultimately show ?thesis unfolding step 2 by (rule not_better_trans)
  next
    case 3
    then show ?thesis unfolding step using Cons.IH[of ?b'] by simp
  qed
qed

lemma max_from_first: "list_all (\<lambda>y. \<not> better y b) xs \<Longrightarrow> max_from asset_key b xs = b"
  by (induction xs) (auto simp: tuple_gt_better)

lemma select_body_compiled:
  assumes re: "re pattern True = Inr regex"
    and wf: "list_all well_formed assets"
    and ne: "filter (asset_matches regex) assets = m # ms"
  shows "select_body re assets pattern =
           ([SelectedAsset (Suc (length ms)) (name_of (max_from asset_key m ms))],
            Inr (url_of (max_from asset_key m ms)))"
proof -
  have names: "list_all (\<lambda>x. a_name x \<noteq> None) assets"
    using wf by (simp add: list_all_iff well_formed_def)
  have "max_from asset_key m ms \<in> set (filter (asset_matches regex) assets)"
    unfolding ne by (rule max_from_mem)
  then have "well_formed (max_from asset_key m ms)"
    using wf by (simp add: list_all_iff)
  then obtain n u where "a_name (max_from asset_key m ms) = Some n"
    "a_browser_download_url (max_from asset_key m ms) = Some u"
    by (auto simp: well_formed_def)
  then show ?thesis
    using re by (simp add: select_body_def matching_assets_filter[OF names] ne py_max_def
        name_of_def url_of_def)
qed

lemma select_compiled:
  assumes "pattern \<noteq> []" "re pattern True = Inr regex" "list_all well_formed assets"
    "filter (asset_matches regex) assets = m # ms"
  shows "select_asset_by_pattern re assets pattern =
           ([SelectedAsset (Suc (length ms)) (name_of (max_from asset_key m ms))],
            url_of (max_from asset_key m ms))"
  using assms by (simp add: select_asset_by_pattern_def select_body_compiled)

lemma select_no_match:
  assumes "list_all (\<lambda>x. \<not> asset_matches regex x) assets" "re pattern True = Inr regex"
  shows "snd (select_asset_by_pattern re assets pattern) = []"
  using matching_assets_none[OF assms(1), of "[]"] assms(2)
  by (auto simp: select_asset_by_pattern_def select_body_def split: prod.splits sum.splits)

lemma select_compile_error:
  assumes "pattern \<noteq> []" "re pattern True = Inl e"
  shows "select_asset_by_pattern re assets pattern =
           ([if e = ReError then PatternInvalid pattern e else PatternProcessingError e], [])"
  using assms by (simp add: select_asset_by_pattern_def select_body_def)


text \<open>Evaluating the library model and the examples.\<close>

lemmas rx_eval = py_re_def re_parse_def new_frame_def push_piece_def frame_rx_def branch_rx_def
  lit_eq_def lower_char_def quantify_def is_alnum_def cls_mem_def groups_of_def bsl_def

lemmas ex_eval = select_asset_by_pattern_def select_body_def example_assets_def example_tie_def
  example_equal_def mk_asset_def py_max_def tuple_gt_def asset_key_def

lemma select_maximal:
  assumes "pattern \<noteq> []" "re pattern True = Inr regex" "list_all well_formed assets"
    "\<exists>a \<in> set assets. asset_matches regex a"
  shows "\<exists>best \<in> set assets. asset_matches regex best \<and>
           a_browser_download_url best = Some (snd (select_asset_by_pattern re assets pattern)) \<and>
           (\<forall>a \<in> set assets. asset_matches regex a \<longrightarrow> \<not> better a best)"
proof -
  from assms(4) obtain m ms where ne: "filter (asset_matches regex) assets = m # ms"
    by (cases "filter (asset_matches regex) assets") (auto simp: filter_empty_conv)
  let ?best = "max_from asset_key m ms"
  have mem: "?best \<in> set (filter (asset_matches regex) assets)"
    unfolding ne by (rule max_from_mem)
  then have "well_formed ?best" using assms(3) by (simp add: list_all_iff)
  then have url: "a_browser_download_url ?best = Some (url_of ?best)"
    by (auto simp: well_formed_def url_of_def)
  have maxi: "\<not> better a ?best" if "a \<in> set assets" "asset_matches regex a" for a
  proof -
    from that have "a \<in> set (m # ms)" unfolding ne[symmetric] by simp
    then show ?thesis by (rule max_from_maximal)
  qed
  have sel: "select_asset_by_pattern re assets pattern =
      ([SelectedAsset (Suc (length ms)) (name_of ?best)], url_of ?best)"
    using assms(1) assms(2) assms(3) ne by (rule select_compiled)
  show ?thesis
    using mem url maxi by (intro bexI[of _ ?best]) (auto simp: sel)
qed

lemma py_re_win:
  "\<exists>f. py_re ''win'' True = Inr f \<and> f ''app-win32.zip'' \<noteq> None \<and>
       f ''app-win64.zip'' \<noteq> None \<and> f ''app-macos.zip'' = None"
  by (simp add: rx_eval)

text \<open>
  C1. For every asset list and every non-empty pattern that compiles and matches at
  least one asset name (searched case-insensitively), asset selection returns the
  download URL of a matching asset that no matching asset outranks: none has a higher
  download count, and none with the same count has a shorter name. In the
  specification's examples, pattern \<open>win\<close> selects \<open>app-win64.zip\<close>, and on the tie of 20
  downloads between \<open>app-win64.zip\<close> and \<open>app.zip\<close> pattern \<open>app.*\.zip\<close> selects
  \<open>app.zip\<close>.
\<close>

theorem select_asset_by_pattern_ranking:
  "(pattern \<noteq> [] \<and> re pattern True = Inr regex \<and> list_all well_formed assets \<and>
    (\<exists>a \<in> set assets. asset_matches regex a) \<longrightarrow>
      (\<exists>best \<in> set assets. asset_matches regex best \<and>
         a_browser_download_url best = Some (snd (select_asset_by_pattern re assets pattern)) \<and>
         (\<forall>a \<in> set assets. asset_matches regex a \<longrightarrow> \<not> better a best))) \<and>
   select_asset_by_pattern py_re example_assets ''win'' =
     ([SelectedAsset 2 ''app-win64.zip''], ''https://example.com/app-win64.zip'') \<and>
   select_asset_by_pattern py_re example_tie (''app.*'' @ bsl @ ''.zip'') =
     ([SelectedAsset 2 ''app.zip''], ''https://example.com/app.zip'')"
proof (intro conjI impI)
  assume "pattern \<noteq> [] \<and> re pattern True = Inr regex \<and> list_all well_formed assets \<and>
    (\<exists>a \<in> set assets. asset_matches regex a)"
  then show "\<exists>best \<in> set assets. asset_matches regex best \<and>
         a_browser_download_url best = Some (snd (select_asset_by_pattern re assets pattern)) \<and>
         (\<forall>a \<in> set assets. asset_matches regex a \<longrightarrow> \<not> better a best)"
    by (intro select_maximal) simp_all
next
  show "select_asset_by_pattern py_re example_assets ''win'' =
     ([SelectedAsset 2 ''app-win64.zip''], ''https://example.com/app-win64.zip'')"
    by (simp add: rx_eval ex_eval)
next
  show "select_asset_by_pattern py_re example_tie (''app.*'' @ bsl @ ''.zip'') =
     ([SelectedAsset 2 ''app.zip''], ''https://example.com/app.zip'')"
    by (simp add: rx_eval ex_eval)
qed

theorem select_asset_by_pattern_ranking_witness:
  "\<exists>regex. ''win'' \<noteq> [] \<and> py_re ''win'' True = Inr regex \<and>
     list_all well_formed example_assets \<and>
     (\<exists>a \<in> set example_assets. asset_matches regex a) \<and>
     (\<exists>best \<in> set example_assets. asset_matches regex best \<and>
        a_browser_download_url best =
          Some (snd (select_asset_by_pattern py_re example_assets ''win'')) \<and>
        (\<forall>a \<in> set example_assets. asset_matches regex a \<longrightarrow> \<not> better a best))"
proof -
  from py_re_win obtain f where f: "py_re ''win'' True = Inr f"
    "f ''app-win32.zip'' \<noteq> None" "f ''app-win64.zip'' \<noteq> None" by blast
  have wf: "list_all well_formed example_assets"
    by (simp add: example_assets_def mk_asset_def well_formed_def)
  have ex: "\<exists>a \<in> set example_assets. asset_matches f a"
    using f(2) by (simp add: example_assets_def mk_asset_def asset_matches_def)
  have ne: "''win'' \<noteq> []" by simp
  show ?thesis
    using select_asset_by_pattern_ranking [of "''win''" py_re f example_assets] f(1) wf ex ne
    by blast
qed

text \<open>
  C10. When every matching asset ties with the first matching one on both keys (the same
  download count and the same name length), asset selection returns the download URL of
  the first matching asset in input order.
\<close>

theorem select_asset_by_pattern_tie_first:
  assumes "pattern \<noteq> []"
    and "re pattern True = Inr regex"
    and "list_all well_formed assets"
    and "filter (asset_matches regex) assets = first # others"
    and "list_all (\<lambda>a. count_of a = count_of first \<and>
                         length (name_of a) = length (name_of first)) others"
  shows "a_browser_download_url first = Some (snd (select_asset_by_pattern re assets pattern)) \<and>
         fst (select_asset_by_pattern re assets pattern) =
           [SelectedAsset (Suc (length others)) (name_of first)]"
proof -
  have "list_all (\<lambda>y. \<not> better y first) others"
    using assms(5) by (simp add: list_all_iff better_def)
  then have best: "max_from asset_key first others = first"
    by (rule max_from_first)
  have "first \<in> set (filter (asset_matches regex) assets)"
    unfolding assms(4) by simp
  then have "well_formed first" using assms(3) by (simp add: list_all_iff)
  then have url: "a_browser_download_url first = Some (url_of first)"
    by (auto simp: well_formed_def url_of_def)
  have "select_asset_by_pattern re assets pattern =
      ([SelectedAsset (Suc (length others)) (name_of (max_from asset_key first others))],
       url_of (max_from asset_key first others))"
    using assms(1) assms(2) assms(3) assms(4) by (rule select_compiled)
  then show ?thesis using url by (simp add: best)
qed

lemma py_re_zip:
  "\<exists>f. py_re ''zip'' True = Inr f \<and> f ''notes.txt'' = None \<and>
       f ''a-x64.zip'' \<noteq> None \<and> f ''a-x86.zip'' \<noteq> None"
  by (simp add: rx_eval)

theorem select_asset_by_pattern_tie_first_witness:
  "select_asset_by_pattern py_re example_equal ''zip'' =
     ([SelectedAsset 2 ''a-x64.zip''], ''https://example.com/a-x64.zip'')"
proof -
  from py_re_zip obtain f where f: "py_re ''zip'' True = Inr f" "f ''notes.txt'' = None"
    "f ''a-x64.zip'' \<noteq> None" "f ''a-x86.zip'' \<noteq> None" by blast
  have wf: "list_all well_formed example_equal"
    by (simp add: example_equal_def mk_asset_def well_formed_def)
  have flt: "filter (asset_matches f) example_equal =
      mk_asset ''a-x64.zip'' 7 # [mk_asset ''a-x86.zip'' 7]"
    using f(2) f(3) f(4) by (simp add: example_equal_def mk_asset_def asset_matches_def)
  have tie: "list_all (\<lambda>a. count_of a = count_of (mk_asset ''a-x64.zip'' 7) \<and>
      length (name_of a) = length (name_of (mk_asset ''a-x64.zip'' 7))) [mk_asset ''a-x86.zip'' 7]"
    by (simp add: mk_asset_def count_of_def name_of_def)
  have ne: "''zip'' \<noteq> []" by simp
  from select_asset_by_pattern_tie_first [where re = py_re, OF ne f(1) wf flt tie]
  show ?thesis
    by (simp add: mk_asset_def name_of_def prod_eq_iff)
qed

text \<open>
  C6. A non-empty pattern that fails to compile makes asset selection report the failure
  and return the empty string, and the parse of the enclosing release still yields a
  \<open>ReleaseInfo\<close>, with an empty download URL. An empty pattern returns the empty string
  at once, with no report and whatever the regular-expression library would do.
\<close>

theorem select_asset_by_pattern_compile_failure:
  "(pattern \<noteq> [] \<and> re pattern True = Inl e \<longrightarrow>
      select_asset_by_pattern re assets pattern =
        ([if e = ReError then PatternInvalid pattern e else PatternProcessingError e], []) \<and>
      (\<forall>tag. d_tag_name data = Some tag \<longrightarrow>
         (\<exists>ds info. parse_release_data re data pattern = (ds, Inr info) \<and>
                    download_url info = []))) \<and>
   select_asset_by_pattern re assets [] = ([], [])"
proof (intro conjI impI allI)
  assume h: "pattern \<noteq> [] \<and> re pattern True = Inl e"
  then show "select_asset_by_pattern re assets pattern =
        ([if e = ReError then PatternInvalid pattern e else PatternProcessingError e], [])"
    by (simp add: select_compile_error)
  fix tag
  assume "d_tag_name data = Some tag"
  then show "\<exists>ds info. parse_release_data re data pattern = (ds, Inr info) \<and>
                    download_url info = []"
    using h by (auto simp: parse_release_data_def select_compile_error split: option.splits)
next
  show "select_asset_by_pattern re assets [] = ([], [])"
    by (simp add: select_asset_by_pattern_def)
qed

theorem select_asset_by_pattern_compile_failure_witness:
  "''('' \<noteq> [] \<and> py_re ''('' True = Inl ReError \<and>
   select_asset_by_pattern py_re example_assets ''('' = ([PatternInvalid ''('' ReError], []) \<and>
   d_tag_name example_release = Some ''v1.2.0'' \<and>
   (\<exists>ds info. parse_release_data py_re example_release ''('' = (ds, Inr info) \<and>
              download_url info = [])"
proof -
  have c: "py_re ''('' True = Inl ReError"
    by (simp add: rx_eval)
  have t: "d_tag_name example_release = Some ''v1.2.0''"
    by (simp add: example_release_def)
  show ?thesis
    using select_asset_by_pattern_compile_failure
      [of "''(''" py_re ReError example_assets example_release] c t
    by simp
qed

section \<open>Parsing a release\<close>

lemma parse_release_data_tagged:
  assumes "d_tag_name data = Some tag"
  shows "\<exists>ds info. parse_release_data re data pattern = (ds, Inr info) \<and>
           version info = tag \<and> tag_name info = tag \<and>
           published_at info = (case d_published_at data of None \<Rightarrow> [] | Some p \<Rightarrow> p) \<and>
           release_notes info = d_body data \<and>
           (pattern = [] \<longrightarrow> download_url info = [] \<and> ds = []) \<and>
           (no_asset_matches re data pattern \<longrightarrow> download_url info = [])"
proof (cases "d_assets data")
  case None
  then show ?thesis using assms by (simp add: parse_release_data_def)
next
  case (Some assets)
  show ?thesis
  proof (cases "assets \<noteq> [] \<and> pattern \<noteq> []")
    case False
    then show ?thesis using assms Some by (auto simp: parse_release_data_def)
  next
    case True
    obtain ds u where sel: "select_asset_by_pattern re assets pattern = (ds, u)"
      by (cases "select_asset_by_pattern re assets pattern")
    have "u = []" if "no_asset_matches re data pattern"
    proof (cases "re pattern True")
      case (Inl e)
      then show ?thesis using sel True by (simp add: select_compile_error)
    next
      case (Inr regex)
      then have "list_all (\<lambda>x. \<not> asset_matches regex x) assets"
        using that Some by (simp add: no_asset_matches_def)
      from select_no_match[where re = re, OF this Inr] show ?thesis using sel by simp
    qed
    then show ?thesis using assms Some True sel by (simp add: parse_release_data_def)
  qed
qed


lemma stable_ok:
  assumes "http (stable_request self owner repo) = Inr resp" "status resp = 200"
    "json resp = Inr (JObject data)" "parse_release_data re data pattern = (ds, Inr info)"
  shows "get_latest_stable_release self http re owner repo pattern = (ds, Inr (Some info))"
  using assms by (simp add: get_latest_stable_release_def)

lemma prerelease_ok:
  assumes "http (releases_request self owner repo) = Inr resp" "status resp = 200"
    "json resp = Inr (JArray (data # older))" "parse_release_data re data pattern = (ds, Inr info)"
  shows "get_latest_release_including_prerelease self http re owner repo pattern =
           (ds, Inr (Some info))"
  using assms by (simp add: get_latest_release_including_prerelease_def)

lemma resolve_ok:
  assumes "gh_extract_repo_info re url = Inr (owner, repo)"
    "http (request_for self inc owner repo) = Inr resp" "status resp = 200"
    "json resp = Inr (if inc then JArray (data # older) else JObject data)"
    "parse_release_data re data pattern = (ds, Inr info)"
  shows "gh_get_latest_release self http re url inc pattern = (ds, Some info)"
proof (cases inc)
  case True
  then have "get_latest_release_including_prerelease self http re owner repo pattern =
           (ds, Inr (Some info))"
    using assms by (intro prerelease_ok[where resp = resp and older = older and data = data])
      (simp_all add: request_for_def)
  then show ?thesis using assms(1) True by (simp add: gh_get_latest_release_def gh_resolve_def)
next
  case False
  then have "get_latest_stable_release self http re owner repo pattern = (ds, Inr (Some info))"
    using assms by (intro stable_ok[where resp = resp and data = data])
      (simp_all add: request_for_def)
  then show ?thesis using assms(1) False by (simp add: gh_get_latest_release_def gh_resolve_def)
qed

lemmas url_eval = gh_extract_repo_info_def patterns_def re_search_def match_group_def lower_def
  endswith_def drop_last_def

lemma extract_o_r: "gh_extract_repo_info py_re ''https://github.com/o/r'' = Inr (''o'', ''r'')"
  by (simp add: url_eval rx_eval)

text \<open>
  C3. A release object with a tag parses into a \<open>ReleaseInfo\<close> whose \<open>version\<close> and
  \<open>tag_name\<close> are the tag, whose \<open>published_at\<close> is the object's (empty when absent)
  and whose \<open>release_notes\<close> are its body (absent when the API omits it). The
  download URL is empty when the pattern is empty and when no asset matched. Fetched
  with status 200 on either path, such a release is the result of the resolution, not
  not-found.
\<close>

theorem parse_release_data_fields:
  assumes "d_tag_name data = Some tag"
  shows "\<exists>ds info. parse_release_data re data pattern = (ds, Inr info) \<and>
           version info = tag \<and> tag_name info = tag \<and>
           published_at info = (case d_published_at data of None \<Rightarrow> [] | Some p \<Rightarrow> p) \<and>
           release_notes info = d_body data \<and>
           (pattern = [] \<longrightarrow> download_url info = []) \<and>
           (no_asset_matches re data pattern \<longrightarrow> download_url info = []) \<and>
           (\<forall>self http url inc owner repo resp older.
              gh_extract_repo_info re url = Inr (owner, repo) \<and>
              http (request_for self inc owner repo) = Inr resp \<and> status resp = 200 \<and>
              json resp = Inr (if inc then JArray (data # older) else JObject data) \<longrightarrow>
              gh_get_latest_release self http re url inc pattern = (ds, Some info))"
proof -
  from parse_release_data_tagged[OF assms, of re pattern]
  obtain ds info where p: "parse_release_data re data pattern = (ds, Inr info)"
    and f: "version info = tag" "tag_name info = tag"
      "published_at info = (case d_published_at data of None \<Rightarrow> [] | Some p \<Rightarrow> p)"
      "release_notes info = d_body data"
      "pattern = [] \<longrightarrow> download_url info = [] \<and> ds = []"
      "no_asset_matches re data pattern \<longrightarrow> download_url info = []"
    by blast
  have "gh_get_latest_release self http re url inc pattern = (ds, Some info)"
    if "gh_extract_repo_info re url = Inr (owner, repo) \<and>
        http (request_for self inc owner repo) = Inr resp \<and> status resp = 200 \<and>
        json resp = Inr (if inc then JArray (data # older) else JObject data)"
    for self http url inc owner repo resp older
    using that p by (intro resolve_ok[where resp = resp and older = older and data = data
          and owner = owner and repo = repo]) simp_all
  then show ?thesis using p f by blast
qed

lemma py_re_linux:
  "\<exists>f. py_re ''linux'' True = Inr f \<and> f ''app-win32.zip'' = None \<and>
       f ''app-win64.zip'' = None \<and> f ''app-macos.zip'' = None"
  by (simp add: rx_eval)

theorem parse_release_data_fields_witness:
  "d_tag_name example_release = Some ''v1.2.0'' \<and>
   no_asset_matches py_re example_release ''linux'' \<and>
   (\<exists>ds info. parse_release_data py_re example_release ''linux'' = (ds, Inr info) \<and>
      version info = ''v1.2.0'' \<and> tag_name info = ''v1.2.0'' \<and>
      published_at info = ''2024-01-01T00:00:00Z'' \<and> release_notes info = None \<and>
      download_url info = [] \<and>
      gh_get_latest_release anonymous (answering 200 (JObject example_release)) py_re
        ''https://github.com/o/r'' False ''linux'' = (ds, Some info))"
proof -
  let ?h = "answering 200 (JObject example_release)"
  have t: "d_tag_name example_release = Some ''v1.2.0''"
    by (simp add: example_release_def)
  from py_re_linux obtain f where f: "py_re ''linux'' True = Inr f"
    "f ''app-win32.zip'' = None" "f ''app-win64.zip'' = None" "f ''app-macos.zip'' = None"
    by blast
  have n: "no_asset_matches py_re example_release ''linux''"
    using f by (simp add: no_asset_matches_def example_release_def example_assets_def
        mk_asset_def asset_matches_def)
  from parse_release_data_fields [OF t, of py_re "''linux''"]
  obtain ds info where i: "parse_release_data py_re example_release ''linux'' = (ds, Inr info)"
    "version info = ''v1.2.0''" "tag_name info = ''v1.2.0''"
    "published_at info =
       (case d_published_at example_release of None \<Rightarrow> [] | Some p \<Rightarrow> p)"
    "release_notes info = d_body example_release"
    "no_asset_matches py_re example_release ''linux'' \<longrightarrow> download_url info = []"
    and r: "\<forall>self http url inc owner repo resp older.
              gh_extract_repo_info py_re url = Inr (owner, repo) \<and>
              http (request_for self inc owner repo) = Inr resp \<and> status resp = 200 \<and>
              json resp = Inr (if inc then JArray (example_release # older)
                               else JObject example_release) \<longrightarrow>
              gh_get_latest_release self http py_re url inc ''linux'' = (ds, Some info)"
    by blast
  have "gh_get_latest_release anonymous ?h py_re ''https://github.com/o/r'' False ''linux'' =
      (ds, Some info)"
    using r [rule_format, of "''https://github.com/o/r''" "''o''" "''r''" ?h anonymous False
        "\<lparr>status = 200, json = Inr (JObject example_release)\<rparr>"] extract_o_r
    by (simp add: answering_def)
  then show ?thesis using t n i by (auto simp: example_release_def)
qed

section \<open>Status codes\<close>

lemma stable_status:
  assumes "http (stable_request self owner repo) = Inr resp"
  shows "(status resp = 404 \<longrightarrow>
            get_latest_stable_release self http re owner repo pattern =
              ([NoPublishedRelease owner repo], Inr None)) \<and>
         (status resp = 403 \<longrightarrow>
            get_latest_stable_release self http re owner repo pattern =
              ([ApiLimitOrPermission 403], Inr None)) \<and>
         (status resp \<noteq> 404 \<and> status resp \<noteq> 403 \<and> status resp \<noteq> 200 \<longrightarrow>
            get_latest_stable_release self http re owner repo pattern =
              ([GetReleaseFailed (status resp)], Inr None))"
  using assms by (simp add: get_latest_stable_release_def)

lemma prerelease_status:
  assumes "http (releases_request self owner repo) = Inr resp"
  shows "(status resp = 404 \<longrightarrow>
            get_latest_release_including_prerelease self http re owner repo pattern =
              ([NoPublishedRelease owner repo], Inr None)) \<and>
         (status resp = 403 \<longrightarrow>
            get_latest_release_including_prerelease self http re owner repo pattern =
              ([ApiLimitOrPermission 403], Inr None)) \<and>
         (status resp \<noteq> 404 \<and> status resp \<noteq> 403 \<and> status resp \<noteq> 200 \<longrightarrow>
            get_latest_release_including_prerelease self http re owner repo pattern =
              ([GetReleasesFailed (status resp)], Inr None))"
  using assms by (simp add: get_latest_release_including_prerelease_def)

text \<open>
  C2, as amended. On both paths a 404 yields not-found without raising, a 403 yields
  not-found with the diagnostic of its own, and every other status but 200 (the other
  2xx codes among them) yields not-found with the status code in the diagnostic. A 200
  whose body is a release object with a tag (on the pre-release path: a list that starts
  with one) yields the \<open>ReleaseInfo\<close> parsed from it.
\<close>

theorem release_status_handling:
  "(http (stable_request self owner repo) = Inr resp \<longrightarrow>
      (status resp = 404 \<longrightarrow>
         get_latest_stable_release self http re owner repo pattern =
           ([NoPublishedRelease owner repo], Inr None)) \<and>
      (status resp = 403 \<longrightarrow>
         get_latest_stable_release self http re owner repo pattern =
           ([ApiLimitOrPermission 403], Inr None)) \<and>
      (status resp \<noteq> 404 \<and> status resp \<noteq> 403 \<and> status resp \<noteq> 200 \<longrightarrow>
         get_latest_stable_release self http re owner repo pattern =
           ([GetReleaseFailed (status resp)], Inr None)) \<and>
      (status resp = 200 \<and> json resp = Inr (JObject data) \<and> d_tag_name data = Some tag \<longrightarrow>
         (\<exists>ds info. parse_release_data re data pattern = (ds, Inr info) \<and>
            get_latest_stable_release self http re owner repo pattern = (ds, Inr (Some info))))) \<and>
   (http (releases_request self owner repo) = Inr resp \<longrightarrow>
      (status resp = 404 \<longrightarrow>
         get_latest_release_including_prerelease self http re owner repo pattern =
           ([NoPublishedRelease owner repo], Inr None)) \<and>
      (status resp = 403 \<longrightarrow>
         get_latest_release_including_prerelease self http re owner repo pattern =
           ([ApiLimitOrPermission 403], Inr None)) \<and>
      (status resp \<noteq> 404 \<and> status resp \<noteq> 403 \<and> status resp \<noteq> 200 \<longrightarrow>
         get_latest_release_including_prerelease self http re owner repo pattern =
           ([GetReleasesFailed (status resp)], Inr None)) \<and>
      (status resp = 200 \<and> json resp = Inr (JArray (data # older)) \<and>
       d_tag_name data = Some tag \<longrightarrow>
         (\<exists>ds info. parse_release_data re data pattern = (ds, Inr info) \<and>
            get_latest_release_including_prerelease self http re owner repo pattern =
              (ds, Inr (Some info)))))"
proof (intro conjI impI)
  assume h: "http (stable_request self owner repo) = Inr resp"
  from stable_status[where http = http and re = re and pattern = pattern, OF h]
  show "status resp = 404 \<Longrightarrow>
         get_latest_stable_release self http re owner repo pattern =
           ([NoPublishedRelease owner repo], Inr None)"
    and "status resp = 403 \<Longrightarrow>
         get_latest_stable_release self http re owner repo pattern =
           ([ApiLimitOrPermission 403], Inr None)"
    and "status resp \<noteq> 404 \<and> status resp \<noteq> 403 \<and> status resp \<noteq> 200 \<Longrightarrow>
         get_latest_stable_release self http re owner repo pattern =
           ([GetReleaseFailed (status resp)], Inr None)"
    by blast+
  assume ok: "status resp = 200 \<and> json resp = Inr (JObject data) \<and> d_tag_name data = Some tag"
  then obtain ds info where p: "parse_release_data re data pattern = (ds, Inr info)"
    using parse_release_data_tagged[of data tag re pattern] by blast
  then have "get_latest_stable_release self http re owner repo pattern = (ds, Inr (Some info))"
    using h ok by (intro stable_ok[where resp = resp and data = data]) simp_all
  then show "\<exists>ds info. parse_release_data re data pattern = (ds, Inr info) \<and>
            get_latest_stable_release self http re owner repo pattern = (ds, Inr (Some info))"
    using p by blast
next
  assume h: "http (releases_request self owner repo) = Inr resp"
  from prerelease_status[where http = http and re = re and pattern = pattern, OF h]
  show "status resp = 404 \<Longrightarrow>
         get_latest_release_including_prerelease self http re owner repo pattern =
           ([NoPublishedRelease owner repo], Inr None)"
    and "status resp = 403 \<Longrightarrow>
         get_latest_release_including_prerelease self http re owner repo pattern =
           ([ApiLimitOrPermission 403], Inr None)"
    and "status resp \<noteq> 404 \<and> status resp \<noteq> 403 \<and> status resp \<noteq> 200 \<Longrightarrow>
         get_latest_release_including_prerelease self http re owner repo pattern =
           ([GetReleasesFailed (status resp)], Inr None)"
    by blast+
  assume ok: "status resp = 200 \<and> json resp = Inr (JArray (data # older)) \<and>
       d_tag_name data = Some tag"
  then obtain ds info where p: "parse_release_data re data pattern = (ds, Inr info)"
    using parse_release_data_tagged[of data tag re pattern] by blast
  then have "get_latest_release_including_prerelease self http re owner repo pattern =
      (ds, Inr (Some info))"
    using h ok by (intro prerelease_ok[where resp = resp and data = data and older = older])
      simp_all
  then show "\<exists>ds info. parse_release_data re data pattern = (ds, Inr info) \<and>
            get_latest_release_including_prerelease self http re owner repo pattern =
              (ds, Inr (Some info))"
    using p by blast
qed

theorem release_status_handling_witness:
  "get_latest_stable_release anonymous (answering 404 (JObject example_release)) py_re
     ''o'' ''r'' [] = ([NoPublishedRelease ''o'' ''r''], Inr None) \<and>
   get_latest_release_including_prerelease anonymous (answering 403 (JArray [])) py_re
     ''o'' ''r'' [] = ([ApiLimitOrPermission 403], Inr None) \<and>
   get_latest_release_including_prerelease anonymous (answering 500 (JArray [])) py_re
     ''o'' ''r'' [] = ([GetReleasesFailed 500], Inr None) \<and>
   (\<exists>ds info. parse_release_data py_re example_release [] = (ds, Inr info) \<and>
      get_latest_stable_release anonymous (answering 200 (JObject example_release)) py_re
        ''o'' ''r'' [] = (ds, Inr (Some info)))"
proof -
  have a: "get_latest_stable_release anonymous (answering 404 (JObject example_release)) py_re
     ''o'' ''r'' [] = ([NoPublishedRelease ''o'' ''r''], Inr None)"
    using release_status_handling [of "answering 404 (JObject example_release)" anonymous
        "''o''" "''r''" "\<lparr>status = 404, json = Inr (JObject example_release)\<rparr>" py_re "[]"]
    by (simp add: answering_def)
  have b: "get_latest_release_including_prerelease anonymous (answering 403 (JArray [])) py_re
     ''o'' ''r'' [] = ([ApiLimitOrPermission 403], Inr None)"
    using release_status_handling [of "answering 403 (JArray [])" anonymous
        "''o''" "''r''" "\<lparr>status = 403, json = Inr (JArray [])\<rparr>" py_re "[]"]
    by (simp add: answering_def)
  have c: "get_latest_release_including_prerelease anonymous (answering 500 (JArray [])) py_re
     ''o'' ''r'' [] = ([GetReleasesFailed 500], Inr None)"
    using release_status_handling [of "answering 500 (JArray [])" anonymous
        "''o''" "''r''" "\<lparr>status = 500, json = Inr (JArray [])\<rparr>" py_re "[]"]
    by (simp add: answering_def)
  have d: "\<exists>ds info. parse_release_data py_re example_release [] = (ds, Inr info) \<and>
      get_latest_stable_release anonymous (answering 200 (JObject example_release)) py_re
        ''o'' ''r'' [] = (ds, Inr (Some info))"
    using release_status_handling [of "answering 200 (JObject example_release)" anonymous
        "''o''" "''r''" "\<lparr>status = 200, json = Inr (JObject example_release)\<rparr>" py_re "[]"
        example_release "''v1.2.0''"]
    by (simp add: answering_def example_release_def)
  show ?thesis using a b c d by blast
qed

text \<open>
  C2 as stated fails: a 201 response that carries a well-formed release object is
  answered with not-found.
\<close>

theorem release_status_2xx_counterexample:
  "get_latest_stable_release anonymous (answering 201 (JObject example_release)) py_re
     ''o'' ''r'' [] = ([GetReleaseFailed 201], Inr None)"
  by (simp add: get_latest_stable_release_def answering_def)

section \<open>The pre-release path\<close>

lemma resolve_depends_on_request:
  assumes "gh_extract_repo_info re url = Inr (owner, repo)"
    "http' (request_for self inc owner repo) = http (request_for self inc owner repo)"
  shows "gh_get_latest_release self http' re url inc pattern =
         gh_get_latest_release self http re url inc pattern"
  using assms
  by (cases inc) (simp_all add: gh_get_latest_release_def gh_resolve_def request_for_def
      get_latest_stable_release_def get_latest_release_including_prerelease_def)

lemma resolve_empty_list:
  assumes "gh_extract_repo_info re url = Inr (owner, repo)"
    "http (releases_request self owner repo) = Inr resp" "status resp = 200"
    "json resp = Inr (JArray [])"
  shows "gh_get_latest_release self http re url True pattern = ([NoReleaseAtAll owner repo], None)"
  using assms
  by (simp add: gh_get_latest_release_def gh_resolve_def get_latest_release_including_prerelease_def)

text \<open>
  C4. With \<open>include_prerelease\<close> set, the one request the resolution depends on is the
  release list of the repository, \<open>https://api.github.com/repos/owner/repo/releases\<close>
  with the provider's headers and \<open>per_page = 10\<close>. A 200 response with an empty list
  yields not-found; one with a non-empty list yields the parse of its first element,
  whatever follows it.
\<close>

theorem prerelease_first_element:
  assumes "gh_extract_repo_info re url = Inr (owner, repo)"
  shows "releases_request self owner repo =
      \<lparr>req_url = api_base self @ ''/repos/'' @ owner @ ''/'' @ repo @ ''/releases'',
       req_headers = headers self,
       req_params = [(''per_page'', 10)]\<rparr> \<and>
    api_base (github_init tok env_token) = ''https://api.github.com'' \<and>
    (\<forall>http'. http' (releases_request self owner repo) = http (releases_request self owner repo) \<longrightarrow>
       gh_get_latest_release self http' re url True pattern =
       gh_get_latest_release self http re url True pattern) \<and>
    (\<forall>resp. http (releases_request self owner repo) = Inr resp \<and> status resp = 200 \<and>
       json resp = Inr (JArray []) \<longrightarrow>
       gh_get_latest_release self http re url True pattern = ([NoReleaseAtAll owner repo], None)) \<and>
    (\<forall>resp first older tag.
       http (releases_request self owner repo) = Inr resp \<and> status resp = 200 \<and>
       json resp = Inr (JArray (first # older)) \<and> d_tag_name first = Some tag \<longrightarrow>
       (\<exists>ds info. parse_release_data re first pattern = (ds, Inr info) \<and>
          gh_get_latest_release self http re url True pattern = (ds, Some info)))"
proof (intro conjI allI impI)
  show "releases_request self owner repo =
      \<lparr>req_url = api_base self @ ''/repos/'' @ owner @ ''/'' @ repo @ ''/releases'',
       req_headers = headers self,
       req_params = [(''per_page'', 10)]\<rparr>"
    by (simp add: releases_request_def)
next
  show "api_base (github_init tok env_token) = ''https://api.github.com''"
    by (simp add: github_init_def Let_def)
next
  fix http'
  assume "http' (releases_request self owner repo) = http (releases_request self owner repo)"
  then show "gh_get_latest_release self http' re url True pattern =
       gh_get_latest_release self http re url True pattern"
    using assms
    by (intro resolve_depends_on_request[where owner = owner and repo = repo])
      (simp_all add: request_for_def)
next
  fix resp
  assume "http (releases_request self owner repo) = Inr resp \<and> status resp = 200 \<and>
       json resp = Inr (JArray [])"
  then show "gh_get_latest_release self http re url True pattern =
      ([NoReleaseAtAll owner repo], None)"
    using assms by (intro resolve_empty_list[where resp = resp]) simp_all
next
  fix resp first older tag
  assume h: "http (releases_request self owner repo) = Inr resp \<and> status resp = 200 \<and>
       json resp = Inr (JArray (first # older)) \<and> d_tag_name first = Some tag"
  then obtain ds info where p: "parse_release_data re first pattern = (ds, Inr info)"
    using parse_release_data_tagged[of first tag re pattern] by blast
  have "gh_get_latest_release self http re url True pattern = (ds, Some info)"
    using assms h p
    by (intro resolve_ok[where resp = resp and data = first and older = older
          and owner = owner and repo = repo]) (simp_all add: request_for_def)
  then show "\<exists>ds info. parse_release_data re first pattern = (ds, Inr info) \<and>
          gh_get_latest_release self http re url True pattern = (ds, Some info)"
    using p by blast
qed

theorem prerelease_first_element_witness:
  "gh_extract_repo_info py_re ''https://github.com/o/r'' = Inr (''o'', ''r'') \<and>
   releases_request anonymous ''o'' ''r'' =
     \<lparr>req_url = ''https://api.github.com/repos/o/r/releases'',
      req_headers = [(''Accept'', ''application/vnd.github.v3+json''),
                     (''User-Agent'', ''py-winget-source/1.0'')],
      req_params = [(''per_page'', 10)]\<rparr> \<and>
   gh_get_latest_release anonymous (answering 200 (JArray [])) py_re
     ''https://github.com/o/r'' True [] = ([NoReleaseAtAll ''o'' ''r''], None) \<and>
   (\<exists>info. gh_get_latest_release anonymous (answering 200 (JArray [example_older, example_release]))
       py_re ''https://github.com/o/r'' True [] = ([], Some info) \<and>
     parse_release_data py_re example_older [] = ([], Inr info) \<and>
     version info = ''v1.1.0'')"
proof -
  let ?h0 = "answering 200 (JArray [])"
  let ?h2 = "answering 200 (JArray [example_older, example_release])"
  let ?u = "''https://github.com/o/r''"
  have "\<forall>resp. ?h0 (releases_request anonymous ''o'' ''r'') = Inr resp \<and> status resp = 200 \<and>
       json resp = Inr (JArray []) \<longrightarrow>
       gh_get_latest_release anonymous ?h0 py_re ?u True [] = ([NoReleaseAtAll ''o'' ''r''], None)"
    using prerelease_first_element [OF extract_o_r, of anonymous None None ?h0 "[]"]
    by (rule conjE) blast
  then have e: "gh_get_latest_release anonymous ?h0 py_re ?u True [] =
      ([NoReleaseAtAll ''o'' ''r''], None)"
    by (simp add: answering_def)
  have "\<forall>resp first older tag.
       ?h2 (releases_request anonymous ''o'' ''r'') = Inr resp \<and> status resp = 200 \<and>
       json resp = Inr (JArray (first # older)) \<and> d_tag_name first = Some tag \<longrightarrow>
       (\<exists>ds info. parse_release_data py_re first [] = (ds, Inr info) \<and>
          gh_get_latest_release anonymous ?h2 py_re ?u True [] = (ds, Some info))"
    using prerelease_first_element [OF extract_o_r, of anonymous None None ?h2 "[]"]
    by (rule conjE) blast
  then have "\<exists>ds info. parse_release_data py_re example_older [] = (ds, Inr info) \<and>
      gh_get_latest_release anonymous ?h2 py_re ?u True [] = (ds, Some info)"
    by (simp add: answering_def example_older_def)
  then obtain ds info where i: "parse_release_data py_re example_older [] = (ds, Inr info)"
    "gh_get_latest_release anonymous ?h2 py_re ?u True [] = (ds, Some info)"
    by blast
  from i(1) have "ds = []" "version info = ''v1.1.0''"
    by (auto simp: parse_release_data_def example_older_def)
  have "releases_request anonymous ''o'' ''r'' =
      \<lparr>req_url = api_base anonymous @ ''/repos/'' @ ''o'' @ ''/'' @ ''r'' @ ''/releases'',
       req_headers = headers anonymous,
       req_params = [(''per_page'', 10)]\<rparr> \<and>
    api_base (github_init None None) = ''https://api.github.com''"
    using prerelease_first_element [OF extract_o_r, of anonymous None None ?h0 "[]"]
    by (rule conjE) blast
  then have q: "releases_request anonymous ''o'' ''r'' =
     \<lparr>req_url = ''https://api.github.com/repos/o/r/releases'',
      req_headers = [(''Accept'', ''application/vnd.github.v3+json''),
                     (''User-Agent'', ''py-winget-source/1.0'')],
      req_params = [(''per_page'', 10)]\<rparr>"
    by (simp add: anonymous_def github_init_def truthy_def Let_def)
  show ?thesis using extract_o_r e i q \<open>ds = []\<close> \<open>version info = ''v1.1.0''\<close> by blast
qed

section \<open>The provider's boundary\<close>

lemma absorb:
  "gh_resolve self http re url inc pattern = (ds, Inl e) \<Longrightarrow>
   gh_get_latest_release self http re url inc pattern = (ds @ [GetReleaseError e], None)"
  by (simp add: gh_get_latest_release_def)

lemma resolve_transport:
  assumes "gh_extract_repo_info re url = Inr (owner, repo)"
    "http (request_for self inc owner repo) = Inl e"
  shows "gh_resolve self http re url inc pattern = ([], Inl e)"
  using assms
  by (cases inc) (simp_all add: gh_resolve_def request_for_def
      get_latest_stable_release_def get_latest_release_including_prerelease_def)

lemma resolve_body:
  assumes "gh_extract_repo_info re url = Inr (owner, repo)"
    "http (request_for self inc owner repo) = Inr resp" "status resp = 200" "json resp = Inl e"
  shows "gh_resolve self http re url inc pattern = ([], Inl e)"
  using assms
  by (cases inc) (simp_all add: gh_resolve_def request_for_def
      get_latest_stable_release_def get_latest_release_including_prerelease_def)

lemma parse_untagged:
  "d_tag_name data = None \<Longrightarrow>
   \<exists>ds. parse_release_data re data pattern = (ds, Inl (KeyError ''tag_name''))"
  by (simp add: parse_release_data_def split: prod.splits)

lemma resolve_untagged:
  assumes "gh_extract_repo_info re url = Inr (owner, repo)"
    "http (request_for self inc owner repo) = Inr resp" "status resp = 200"
    "json resp = Inr (if inc then JArray (data # older) else JObject data)"
    "d_tag_name data = None"
  shows "\<exists>ds. gh_resolve self http re url inc pattern = (ds, Inl (KeyError ''tag_name''))"
proof -
  from parse_untagged[OF assms(5), of re pattern]
  obtain ds where "parse_release_data re data pattern = (ds, Inl (KeyError ''tag_name''))"
    by blast
  then have "gh_resolve self http re url inc pattern = (ds, Inl (KeyError ''tag_name''))"
    using assms(1-4)
    by (cases inc) (simp_all add: gh_resolve_def request_for_def
      get_latest_stable_release_def get_latest_release_including_prerelease_def)
  then show ?thesis by blast
qed

text \<open>
  C5. \<open>get_latest_release\<close> returns a \<open>ReleaseInfo\<close> or \<open>None\<close> and never raises:
  an invalid URL, a transport fault, an undecodable body and a release object without a
  tag each end in \<open>None\<close> with the error as the last diagnostic, as does every other
  exception of the \<open>try\<close> block.
\<close>

theorem gh_get_latest_release_absorbs:
  "(\<forall>e. gh_extract_repo_info re url = Inl e \<longrightarrow>
      gh_get_latest_release self http re url inc pattern = ([GetReleaseError e], None)) \<and>
   (\<forall>owner repo e. gh_extract_repo_info re url = Inr (owner, repo) \<and>
      http (request_for self inc owner repo) = Inl e \<longrightarrow>
      gh_get_latest_release self http re url inc pattern = ([GetReleaseError e], None)) \<and>
   (\<forall>owner repo resp e. gh_extract_repo_info re url = Inr (owner, repo) \<and>
      http (request_for self inc owner repo) = Inr resp \<and> status resp = 200 \<and>
      json resp = Inl e \<longrightarrow>
      gh_get_latest_release self http re url inc pattern = ([GetReleaseError e], None)) \<and>
   (\<forall>owner repo resp data older. gh_extract_repo_info re url = Inr (owner, repo) \<and>
      http (request_for self inc owner repo) = Inr resp \<and> status resp = 200 \<and>
      json resp = Inr (if inc then JArray (data # older) else JObject data) \<and>
      d_tag_name data = None \<longrightarrow>
      (\<exists>ds. gh_get_latest_release self http re url inc pattern =
         (ds @ [GetReleaseError (KeyError ''tag_name'')], None))) \<and>
   (\<forall>ds e. gh_resolve self http re url inc pattern = (ds, Inl e) \<longrightarrow>
      gh_get_latest_release self http re url inc pattern = (ds @ [GetReleaseError e], None)) \<and>
   (\<forall>ds r. gh_resolve self http re url inc pattern = (ds, Inr r) \<longrightarrow>
      gh_get_latest_release self http re url inc pattern = (ds, r))"
proof (intro conjI allI impI)
  fix e
  assume "gh_extract_repo_info re url = Inl e"
  then show "gh_get_latest_release self http re url inc pattern = ([GetReleaseError e], None)"
    by (simp add: gh_get_latest_release_def gh_resolve_def)
next
  fix owner repo e
  assume "gh_extract_repo_info re url = Inr (owner, repo) \<and>
      http (request_for self inc owner repo) = Inl e"
  then have "gh_resolve self http re url inc pattern = ([], Inl e)"
    by (intro resolve_transport[where owner = owner and repo = repo]) simp_all
  then show "gh_get_latest_release self http re url inc pattern = ([GetReleaseError e], None)"
    by (simp add: absorb)
next
  fix owner repo resp e
  assume "gh_extract_repo_info re url = Inr (owner, repo) \<and>
      http (request_for self inc owner repo) = Inr resp \<and> status resp = 200 \<and>
      json resp = Inl e"
  then have "gh_resolve self http re url inc pattern = ([], Inl e)"
    by (intro resolve_body[where owner = owner and repo = repo and resp = resp]) simp_all
  then show "gh_get_latest_release self http re url inc pattern = ([GetReleaseError e], None)"
    by (simp add: absorb)
next
  fix owner repo resp data older
  assume "gh_extract_repo_info re url = Inr (owner, repo) \<and>
      http (request_for self inc owner repo) = Inr resp \<and> status resp = 200 \<and>
      json resp = Inr (if inc then JArray (data # older) else JObject data) \<and>
      d_tag_name data = None"
  then have "\<exists>ds. gh_resolve self http re url inc pattern = (ds, Inl (KeyError ''tag_name''))"
    by (intro resolve_untagged[where owner = owner and repo = repo and resp = resp
          and data = data and older = older]) simp_all
  then show "\<exists>ds. gh_get_latest_release self http re url inc pattern =
         (ds @ [GetReleaseError (KeyError ''tag_name'')], None)"
    using absorb by blast
next
  fix ds e
  assume "gh_resolve self http re url inc pattern = (ds, Inl e)"
  then show "gh_get_latest_release self http re url inc pattern =
      (ds @ [GetReleaseError e], None)"
    by (rule absorb)
next
  fix ds r
  assume "gh_resolve self http re url inc pattern = (ds, Inr r)"
  then show "gh_get_latest_release self http re url inc pattern = (ds, r)"
    by (simp add: gh_get_latest_release_def)
qed

lemma extract_invalid:
  "gh_extract_repo_info py_re ''https://gitlab.com/o/r'' = Inl ValueError"
  by (simp add: url_eval rx_eval)

theorem gh_get_latest_release_absorbs_witness:
  "gh_extract_repo_info py_re ''https://gitlab.com/o/r'' = Inl ValueError \<and>
   gh_get_latest_release anonymous (\<lambda>req. Inl ClientError) py_re ''https://gitlab.com/o/r''
     False [] = ([GetReleaseError ValueError], None) \<and>
   gh_extract_repo_info py_re ''https://github.com/o/r'' = Inr (''o'', ''r'') \<and>
   gh_get_latest_release anonymous (\<lambda>req. Inl ClientError) py_re ''https://github.com/o/r''
     True [] = ([GetReleaseError ClientError], None) \<and>
   gh_get_latest_release anonymous (\<lambda>req. Inr \<lparr>status = 200, json = Inl JSONDecodeError\<rparr>)
     py_re ''https://github.com/o/r'' False [] = ([GetReleaseError JSONDecodeError], None)"
proof -
  have a: "gh_get_latest_release anonymous (\<lambda>req. Inl ClientError) py_re
      ''https://gitlab.com/o/r'' False [] = ([GetReleaseError ValueError], None)"
    using gh_get_latest_release_absorbs [of py_re "''https://gitlab.com/o/r''" anonymous
        "\<lambda>req. Inl ClientError" False "[]"] extract_invalid
    by blast
  have b: "gh_get_latest_release anonymous (\<lambda>req. Inl ClientError) py_re
      ''https://github.com/o/r'' True [] = ([GetReleaseError ClientError], None)"
    using gh_get_latest_release_absorbs [of py_re "''https://github.com/o/r''" anonymous
        "\<lambda>req. Inl ClientError" True "[]"] extract_o_r
    by blast
  have "\<forall>owner repo resp e. gh_extract_repo_info py_re ''https://github.com/o/r'' = Inr (owner, repo) \<and>
      (\<lambda>req. Inr \<lparr>status = 200, json = Inl JSONDecodeError\<rparr>) (request_for anonymous False owner repo)
         = Inr resp \<and> status resp = 200 \<and> json resp = Inl e \<longrightarrow>
      gh_get_latest_release anonymous (\<lambda>req. Inr \<lparr>status = 200, json = Inl JSONDecodeError\<rparr>)
        py_re ''https://github.com/o/r'' False [] = ([GetReleaseError e], None)"
    using gh_get_latest_release_absorbs [of py_re "''https://github.com/o/r''" anonymous
        "\<lambda>req. Inr \<lparr>status = 200, json = Inl JSONDecodeError\<rparr>" False "[]"]
    by (rule conjE) blast
  then have c: "gh_get_latest_release anonymous
      (\<lambda>req. Inr \<lparr>status = 200, json = Inl JSONDecodeError\<rparr>)
      py_re ''https://github.com/o/r'' False [] = ([GetReleaseError JSONDecodeError], None)"
    using extract_o_r by simp
  show ?thesis using a b c extract_invalid extract_o_r by blast
qed

section \<open>The registry\<close>

lemma get_manager_first:
  "list_all (\<lambda>m. can_handle m url = Inr False) before \<Longrightarrow> can_handle manager url = Inr True \<Longrightarrow>
   get_manager (before @ manager # after) url = Inr (Some manager)"
  by (induction before) auto

lemma get_manager_none:
  "list_all (\<lambda>m. can_handle m url = Inr False) managers \<Longrightarrow> get_manager managers url = Inr None"
  by (induction managers) auto

text \<open>
  C8, as amended. The registry scans its providers in registration order. When the
  providers before it have returned false, the first provider whose \<open>can_handle\<close> returns
  true is used; when two registered providers both claim the URL, the one registered
  first is used. When every registered provider returns false, the result is not-found
  with the diagnostic that names the URL.
\<close>

theorem registry_first_match:
  "(list_all (\<lambda>m. can_handle m url = Inr False) before \<and> can_handle manager url = Inr True \<longrightarrow>
      get_manager (before @ manager # after) url = Inr (Some manager) \<and>
      registry_get_latest_release (before @ manager # after) url inc pattern =
        get_latest_release manager url inc pattern) \<and>
   (list_all (\<lambda>m. can_handle m url = Inr False) managers \<longrightarrow>
      get_manager managers url = Inr None \<and>
      registry_get_latest_release managers url inc pattern = ([NoManagerForUrl url], Inr None)) \<and>
   (can_handle a url = Inr True \<and> can_handle b url = Inr True \<longrightarrow>
      get_manager (register b (register a [])) url = Inr (Some a) \<and>
      registry_get_latest_release (register b (register a [])) url inc pattern =
        get_latest_release a url inc pattern)"
proof (intro conjI impI)
  assume h: "list_all (\<lambda>m. can_handle m url = Inr False) before \<and> can_handle manager url = Inr True"
  then show g: "get_manager (before @ manager # after) url = Inr (Some manager)"
    by (simp add: get_manager_first)
  show "registry_get_latest_release (before @ manager # after) url inc pattern =
        get_latest_release manager url inc pattern"
    by (simp add: registry_get_latest_release_def g)
next
  assume h: "list_all (\<lambda>m. can_handle m url = Inr False) managers"
  then show g: "get_manager managers url = Inr None"
    by (rule get_manager_none)
  show "registry_get_latest_release managers url inc pattern = ([NoManagerForUrl url], Inr None)"
    by (simp add: registry_get_latest_release_def g)
next
  assume h: "can_handle a url = Inr True \<and> can_handle b url = Inr True"
  then show g: "get_manager (register b (register a [])) url = Inr (Some a)"
    by (simp add: register_def)
  show "registry_get_latest_release (register b (register a [])) url inc pattern =
        get_latest_release a url inc pattern"
    by (simp add: registry_get_latest_release_def g)
qed

theorem registry_first_match_witness:
  "registry_get_latest_release
     (register (stub_manager True ''second'') (register (stub_manager True ''first'') []))
     ''https://github.com/o/r'' False [] = ([], Inr (Some (stub_release ''first''))) \<and>
   registry_get_latest_release
     (register (stub_manager True ''second'') (register (stub_manager False ''first'') []))
     ''https://github.com/o/r'' False [] = ([], Inr (Some (stub_release ''second''))) \<and>
   registry_get_latest_release
     (register (stub_manager False ''second'') (register (stub_manager False ''first'') []))
     ''https://github.com/o/r'' False [] = ([NoManagerForUrl ''https://github.com/o/r''], Inr None)"
proof -
  let ?u = "''https://github.com/o/r''"
  have a: "registry_get_latest_release
     (register (stub_manager True ''second'') (register (stub_manager True ''first'') []))
     ?u False [] = ([], Inr (Some (stub_release ''first'')))"
    using registry_first_match [of ?u _ _ _ _ _ _ "stub_manager True ''first''"
        "stub_manager True ''second''", THEN conjunct2, THEN conjunct2]
    by (simp add: stub_manager_def)
  have b: "registry_get_latest_release
     (register (stub_manager True ''second'') (register (stub_manager False ''first'') []))
     ?u False [] = ([], Inr (Some (stub_release ''second'')))"
    using registry_first_match [of ?u "[stub_manager False ''first'']" "stub_manager True ''second''"
        "[]" False "[]", THEN conjunct1]
    by (simp add: stub_manager_def register_def)
  have c: "registry_get_latest_release
     (register (stub_manager False ''second'') (register (stub_manager False ''first'') []))
     ?u False [] = ([NoManagerForUrl ?u], Inr None)"
    using registry_first_match [of ?u _ _ _ False "[]"
        "[stub_manager False ''first'', stub_manager False ''second'']", THEN conjunct2, THEN conjunct1]
    by (simp add: stub_manager_def register_def)
  show ?thesis using a b c by blast
qed

lemmas urlparse_eval = gh_can_handle_def parse_url_def py_urlparse_def split_scheme_def
  url_clean_def c0_or_space_def unsafe_byte_def netloc_delim_def is_alpha_def scheme_char_def
  checknetloc_raises_def is_ascii_def lower_def lower_char_def Let_def

text \<open>
  C8 as stated fails: no provider of the default registry claims
  \<open>https://[github.com/x/y\<close>, and the registry does not return not-found, it raises the
  \<open>ValueError\<close> of the GitHub provider's \<open>can_handle\<close>; a provider registered later that
  claims the URL is not reached.
\<close>

theorem registry_raising_counterexample:
  "registry_get_latest_release default_registry ''https://[github.com/x/y'' False [] =
     ([], Inl ValueError) \<and>
   registry_get_latest_release (register (stub_manager True ''second'') default_registry)
     ''https://[github.com/x/y'' False [] = ([], Inl ValueError)"
  by (simp add: registry_get_latest_release_def default_registry_def registry_init_def
      register_def github_manager_def urlparse_eval)

section \<open>Recognising a GitHub URL\<close>

lemma scheme_no_colon: "scheme_char c \<Longrightarrow> c \<noteq> CHR '':''"
  by (auto simp: scheme_char_def)

lemma slash_not_alpha: "\<not> is_alpha CHR ''/''"
  by (simp add: is_alpha_def)

lemma checknetloc_ascii: "list_all is_ascii nl \<Longrightarrow> \<not> checknetloc_raises nfkc nl"
  by (simp add: checknetloc_raises_def)

lemma checknetloc_empty: "\<not> checknetloc_raises nfkc []"
  by (simp add: checknetloc_raises_def)

lemma split_scheme_url:
  assumes "valid_scheme sch"
  shows "split_scheme (sch @ ''://'' @ t) = (lower sch, ''//'' @ t)"
proof -
  have "\<forall>c \<in> set sch. c \<noteq> CHR '':''"
    using assms by (auto simp: valid_scheme_def list_all_iff scheme_no_colon)
  then have tw: "takeWhile (\<lambda>c. c \<noteq> CHR '':'') (sch @ ''://'' @ t) = sch"
    by (simp add: takeWhile_tail)
  show ?thesis
    unfolding split_scheme_def tw using assms by (simp add: Let_def valid_scheme_def)
qed

lemma split_scheme_relative: "split_scheme (''//'' @ t) = ([], ''//'' @ t)"
proof (cases "takeWhile (\<lambda>c. c \<noteq> CHR '':'') (''//'' @ t)")
  case Nil
  then show ?thesis by (simp add: split_scheme_def)
next
  case (Cons x xs)
  then have "x = CHR ''/''" by simp
  then show ?thesis using Cons by (simp add: split_scheme_def Let_def slash_not_alpha)
qed

lemma split_scheme_cases:
  "split_scheme u = ([], u) \<or>
   (\<exists>sch t. valid_scheme sch \<and> u = sch @ '':'' @ t \<and> split_scheme u = (lower sch, t))"
proof -
  let ?pre = "takeWhile (\<lambda>c. c \<noteq> CHR '':'') u"
  show ?thesis
  proof (cases "length ?pre < length u \<and> ?pre \<noteq> [] \<and> is_alpha (hd ?pre) \<and>
      list_all scheme_char ?pre")
    case False
    then show ?thesis by (auto simp: split_scheme_def Let_def)
  next
    case True
    let ?dw = "dropWhile (\<lambda>c. c \<noteq> CHR '':'') u"
    have u: "?pre @ ?dw = u" by simp
    have len: "length ?pre + length ?dw = length u"
      by (metis length_append takeWhile_dropWhile_id)
    have ne: "?dw \<noteq> []"
    proof
      assume e: "?dw = []"
      have "length ?pre = length u" using len unfolding e by simp
      then show False using True by simp
    qed
    then have "hd ?dw = CHR '':''" using hd_dropWhile[of "\<lambda>c. c \<noteq> CHR '':''" u] by simp
    then obtain r where r: "?dw = CHR '':'' # r" using ne by (cases ?dw) auto
    have "drop (length ?pre) u = ?dw" by (simp add: dropWhile_eq_drop)
    then have "drop (Suc (length ?pre)) u = drop 1 ?dw"
      by (metis drop_drop plus_1_eq_Suc)
    then have d: "drop (Suc (length ?pre)) u = r" using r by simp
    have "u = ?pre @ '':'' @ r" using u r by (metis append_Cons append_Nil)
    moreover have "valid_scheme ?pre" using True by (simp add: valid_scheme_def)
    moreover have "split_scheme u = (lower ?pre, r)"
      using True d by (simp add: split_scheme_def Let_def)
    ultimately show ?thesis by blast
  qed
qed

lemma netloc_of:
  assumes "plain_authority auth" "t = [] \<or> netloc_delim (hd t)"
  shows "takeWhile (\<lambda>c. \<not> netloc_delim c) (auth @ t) = auth"
proof -
  have a: "\<forall>c \<in> set auth. \<not> netloc_delim c"
    using assms(1) by (auto simp: plain_authority_def list_all_iff)
  show ?thesis
  proof (cases t)
    case Nil
    then show ?thesis using a by simp
  next
    case (Cons r rs)
    then have "netloc_delim r" using assms(2) by simp
    then show ?thesis using a Cons by (simp add: takeWhile_tail)
  qed
qed

lemma parse_authority:
  assumes "split_scheme (url_clean url) = (s, ''//'' @ auth @ rest)"
    and "plain_authority auth" and "rest = [] \<or> netloc_delim (hd rest)"
  shows "gh_can_handle (py_urlparse ip_literal nfkc) url = Inr (is_github auth)"
proof -
  have n: "takeWhile (\<lambda>c. \<not> netloc_delim c) (auth @ rest) = auth"
    using assms(2,3) by (rule netloc_of)
  have b: "CHR ''['' \<notin> set auth" "CHR '']'' \<notin> set auth" "list_all is_ascii auth"
    using assms(2) by (auto simp: plain_authority_def list_all_iff)
  have "py_urlparse ip_literal nfkc url =
      Inr \<lparr>scheme = s, netloc = auth,
           remainder = dropWhile (\<lambda>c. \<not> netloc_delim c) (auth @ rest)\<rparr>"
    unfolding py_urlparse_def using assms(1) n b by (simp add: Let_def checknetloc_ascii)
  then show ?thesis
    by (simp add: gh_can_handle_def parse_url_def is_github_def)
qed

lemma parse_no_authority:
  assumes "split_scheme (url_clean url) = (s, t)" "take 2 t \<noteq> ''//''"
  shows "gh_can_handle (py_urlparse ip_literal nfkc) url = Inr False"
  using assms
  by (simp add: py_urlparse_def gh_can_handle_def parse_url_def checknetloc_empty lower_def)

lemma clean_subset: "set (url_clean url) \<subseteq> set url"
  by (auto simp: url_clean_def dest: set_dropWhileD)

lemma split_subset: "set (snd (split_scheme u)) \<subseteq> set u"
  by (auto simp: split_scheme_def Let_def dest: in_set_dropD)

lemma never_fails:
  assumes "list_all is_ascii url" "CHR ''['' \<notin> set url" "CHR '']'' \<notin> set url"
  shows "\<exists>b. gh_can_handle (py_urlparse ip_literal nfkc) url = Inr b"
proof -
  obtain s t where st: "split_scheme (url_clean url) = (s, t)"
    by (cases "split_scheme (url_clean url)")
  let ?nl = "takeWhile (\<lambda>c. \<not> netloc_delim c) (drop 2 t)"
  have "set t \<subseteq> set url"
    using split_subset[of "url_clean url"] clean_subset[of url] st by auto
  then have sub: "set ?nl \<subseteq> set url"
    by (auto dest: set_takeWhileD in_set_dropD)
  then have "CHR ''['' \<notin> set ?nl" "CHR '']'' \<notin> set ?nl" "list_all is_ascii ?nl"
    using assms by (auto simp: list_all_iff)
  then show ?thesis
    using st by (simp add: py_urlparse_def gh_can_handle_def parse_url_def Let_def
        checknetloc_ascii checknetloc_empty)
qed

text \<open>
  C9, as amended. On a URL of ASCII characters without square brackets \<open>can_handle\<close>
  does not fail. It answers by the netloc of \<open>urlparse\<close>, the whole authority (the host
  together with any user information and port), read after \<open>urlparse\<close> has stripped
  leading control characters and spaces and removed tabs and line breaks: for
  \<open>scheme://authority\<close> and for \<open>//authority\<close>, ending there or going on with \<open>/\<close>,
  \<open>?\<close> or \<open>#\<close>, the authority being ASCII and holding no square bracket, it is true
  exactly when the authority in lower case is \<open>github.com\<close> or \<open>www.github.com\<close>; for
  a URL of neither form it is false. It is true for \<open>https://github.com/x/y\<close> and
  \<open>https://www.github.com/x/y\<close>.
\<close>

theorem gh_can_handle_netloc:
  "(list_all is_ascii url \<and> CHR ''['' \<notin> set url \<and> CHR '']'' \<notin> set url \<longrightarrow>
      (\<exists>b. gh_can_handle (py_urlparse ip_literal nfkc) url = Inr b)) \<and>
   (valid_scheme sch \<and> url_clean url = sch @ ''://'' @ auth @ rest \<and> plain_authority auth \<and>
    (rest = [] \<or> netloc_delim (hd rest)) \<longrightarrow>
      gh_can_handle (py_urlparse ip_literal nfkc) url =
        Inr (lower auth = ''github.com'' \<or> lower auth = ''www.github.com'')) \<and>
   (url_clean url = ''//'' @ auth @ rest \<and> plain_authority auth \<and>
    (rest = [] \<or> netloc_delim (hd rest)) \<longrightarrow>
      gh_can_handle (py_urlparse ip_literal nfkc) url =
        Inr (lower auth = ''github.com'' \<or> lower auth = ''www.github.com'')) \<and>
   (take 2 (url_clean url) \<noteq> ''//'' \<and>
    (\<forall>s t. valid_scheme s \<longrightarrow> url_clean url \<noteq> s @ ''://'' @ t) \<longrightarrow>
      gh_can_handle (py_urlparse ip_literal nfkc) url = Inr False) \<and>
   gh_can_handle (py_urlparse no_ip_check nfkc_ascii) ''https://github.com/x/y'' = Inr True \<and>
   gh_can_handle (py_urlparse no_ip_check nfkc_ascii) ''https://www.github.com/x/y'' = Inr True"
proof (intro conjI impI)
  assume "list_all is_ascii url \<and> CHR ''['' \<notin> set url \<and> CHR '']'' \<notin> set url"
  then show "\<exists>b. gh_can_handle (py_urlparse ip_literal nfkc) url = Inr b"
    by (intro never_fails) simp_all
next
  assume h: "valid_scheme sch \<and> url_clean url = sch @ ''://'' @ auth @ rest \<and>
    plain_authority auth \<and> (rest = [] \<or> netloc_delim (hd rest))"
  then have "split_scheme (url_clean url) = (lower sch, ''//'' @ auth @ rest)"
    using split_scheme_url[of sch "auth @ rest"] by simp
  then have "gh_can_handle (py_urlparse ip_literal nfkc) url = Inr (is_github auth)"
    using h by (intro parse_authority[where s = "lower sch" and rest = rest]) simp_all
  then show "gh_can_handle (py_urlparse ip_literal nfkc) url =
        Inr (lower auth = ''github.com'' \<or> lower auth = ''www.github.com'')"
    by (simp add: is_github_def)
next
  assume h: "url_clean url = ''//'' @ auth @ rest \<and> plain_authority auth \<and>
    (rest = [] \<or> netloc_delim (hd rest))"
  then have "split_scheme (url_clean url) = ([], ''//'' @ auth @ rest)"
    using split_scheme_relative[of "auth @ rest"] by simp
  then have "gh_can_handle (py_urlparse ip_literal nfkc) url = Inr (is_github auth)"
    using h by (intro parse_authority[where s = "[]" and rest = rest]) simp_all
  then show "gh_can_handle (py_urlparse ip_literal nfkc) url =
        Inr (lower auth = ''github.com'' \<or> lower auth = ''www.github.com'')"
    by (simp add: is_github_def)
next
  assume h: "take 2 (url_clean url) \<noteq> ''//'' \<and>
    (\<forall>s t. valid_scheme s \<longrightarrow> url_clean url \<noteq> s @ ''://'' @ t)"
  from split_scheme_cases[of "url_clean url"]
  show "gh_can_handle (py_urlparse ip_literal nfkc) url = Inr False"
  proof
    assume "split_scheme (url_clean url) = ([], url_clean url)"
    then show ?thesis using h by (intro parse_no_authority[where s = "[]" and t = "url_clean url"]) simp_all
  next
    assume "\<exists>sch t. valid_scheme sch \<and> url_clean url = sch @ '':'' @ t \<and>
      split_scheme (url_clean url) = (lower sch, t)"
    then obtain sch t where s: "valid_scheme sch" "url_clean url = sch @ '':'' @ t"
      "split_scheme (url_clean url) = (lower sch, t)" by blast
    have "take 2 t \<noteq> ''//''"
    proof
      assume e: "take 2 t = ''//''"
      have "t = take 2 t @ drop 2 t" by simp
      then have "t = ''//'' @ drop 2 t" unfolding e .
      then have "url_clean url = sch @ ''://'' @ drop 2 t" using s(2) by simp
      then show False using h s(1) by blast
    qed
    then show ?thesis using s(3) by (intro parse_no_authority[where s = "lower sch" and t = t])
  qed
next
  show "gh_can_handle (py_urlparse no_ip_check nfkc_ascii) ''https://github.com/x/y'' = Inr True"
    by (simp add: urlparse_eval)
next
  show "gh_can_handle (py_urlparse no_ip_check nfkc_ascii) ''https://www.github.com/x/y'' = Inr True"
    by (simp add: urlparse_eval)
qed

text \<open>
  C9 as stated fails twice: the host of \<open>https://github.com:443/x/y\<close> is
  \<open>github.com\<close> and the answer is false, and on \<open>https://[github.com/x/y\<close> the
  function raises \<open>ValueError\<close>.
\<close>

theorem gh_can_handle_counterexample:
  "gh_can_handle (py_urlparse no_ip_check nfkc_ascii) ''https://github.com:443/x/y'' = Inr False \<and>
   gh_can_handle (py_urlparse no_ip_check nfkc_ascii) ''https://[github.com/x/y'' = Inl ValueError"
  by (simp add: urlparse_eval)

lemmas shape_eval = valid_scheme_def is_alpha_def scheme_char_def plain_authority_def
  netloc_delim_def unsafe_byte_def is_ascii_def c0_or_space_def url_clean_def lower_def
  lower_char_def

theorem gh_can_handle_netloc_witness:
  "(\<exists>b. gh_can_handle (py_urlparse no_ip_check nfkc_ascii) ''mailto:me@example.org'' = Inr b) \<and>
   gh_can_handle (py_urlparse no_ip_check nfkc_ascii) ''HTTPS://GitHub.com/x/y'' = Inr True \<and>
   gh_can_handle (py_urlparse no_ip_check nfkc_ascii) ''https://gitlab.com/x/y'' = Inr False \<and>
   gh_can_handle (py_urlparse no_ip_check nfkc_ascii) ''https://user@github.com'' = Inr False \<and>
   gh_can_handle (py_urlparse no_ip_check nfkc_ascii) ''//github.com/x/y'' = Inr True \<and>
   gh_can_handle (py_urlparse no_ip_check nfkc_ascii) ''github.com/x/y'' = Inr False"
proof -
  have a: "\<exists>b. gh_can_handle (py_urlparse no_ip_check nfkc_ascii) ''mailto:me@example.org'' = Inr b"
    using gh_can_handle_netloc [of "''mailto:me@example.org''" no_ip_check nfkc_ascii,
        THEN conjunct1]
    by (simp add: is_ascii_def)
  have b: "gh_can_handle (py_urlparse no_ip_check nfkc_ascii) ''HTTPS://GitHub.com/x/y'' = Inr True"
    using gh_can_handle_netloc [of "''HTTPS://GitHub.com/x/y''" no_ip_check nfkc_ascii
        "''HTTPS''" "''GitHub.com''" "''/x/y''", THEN conjunct2, THEN conjunct1]
    by (simp add: shape_eval)
  have c: "gh_can_handle (py_urlparse no_ip_check nfkc_ascii) ''https://gitlab.com/x/y'' = Inr False"
    using gh_can_handle_netloc [of "''https://gitlab.com/x/y''" no_ip_check nfkc_ascii
        "''https''" "''gitlab.com''" "''/x/y''", THEN conjunct2, THEN conjunct1]
    by (simp add: shape_eval)
  have d: "gh_can_handle (py_urlparse no_ip_check nfkc_ascii) ''https://user@github.com'' = Inr False"
    using gh_can_handle_netloc [of "''https://user@github.com''" no_ip_check nfkc_ascii
        "''https''" "''user@github.com''" "[]", THEN conjunct2, THEN conjunct1]
    by (simp add: shape_eval)
  have e: "gh_can_handle (py_urlparse no_ip_check nfkc_ascii) ''//github.com/x/y'' = Inr True"
    using gh_can_handle_netloc [of "''//github.com/x/y''" no_ip_check nfkc_ascii
        _ "''github.com''" "''/x/y''", THEN conjunct2, THEN conjunct2, THEN conjunct1]
    by (simp add: shape_eval)
  have nc: "\<forall>s t. valid_scheme s \<longrightarrow> url_clean ''github.com/x/y'' \<noteq> s @ ''://'' @ t"
  proof (intro allI impI notI)
    fix s t
    assume "url_clean ''github.com/x/y'' = s @ ''://'' @ t"
    then have "CHR '':'' \<in> set (url_clean ''github.com/x/y'')" by simp
    then show False by (simp add: url_clean_def c0_or_space_def unsafe_byte_def)
  qed
  have f: "gh_can_handle (py_urlparse no_ip_check nfkc_ascii) ''github.com/x/y'' = Inr False"
    using gh_can_handle_netloc [of "''github.com/x/y''" no_ip_check nfkc_ascii,
        THEN conjunct2, THEN conjunct2, THEN conjunct2, THEN conjunct1] nc
    by (simp add: url_clean_def c0_or_space_def unsafe_byte_def)
  show ?thesis using a b c d e f by blast
qed

section \<open>Extracting owner and repository\<close>

text \<open>
  C7 fails on the code. The first pattern is anchored at the end of the URL only, and is
  tried first on every URL: on a sub-page URL whose path ends in \<open>github.com/x/y\<close>, as
  the vendored packages of a Go repository do, it matches there, and the result is not
  the pair of the repository's root URL.
\<close>

theorem extract_repo_info_vendor_path:
  "gh_extract_repo_info py_re ''https://github.com/golang/go'' = Inr (''golang'', ''go'') \<and>
   gh_extract_repo_info py_re ''https://github.com/golang/go/tree/master/vendor/github.com/pkg/errors'' =
     Inr (''pkg'', ''errors'')"
  by (simp add: url_eval rx_eval)

lemma extract_shapes:
  "gh_extract_repo_info py_re ''https://github.com/Golang/Go.git'' = Inr (''golang'', ''go'')"
  "gh_extract_repo_info py_re ''https://github.com/golang/go/releases/tag/v1'' = Inr (''golang'', ''go'')"
  "gh_extract_repo_info py_re ''https://github.com/golang/go/archive/main.zip'' = Inr (''golang'', ''go'')"
  "gh_extract_repo_info py_re ''https://github.com/golang/go/releases'' = Inl ValueError"
  by (simp_all add: url_eval rx_eval)

end
